theory Spec2Isabelle
  imports Complex_Main "HOL-Library.Sublist" "HOL-Library.Multiset"
begin

section \<open>Python values\<close>

text \<open>
  A Python \<open>str\<close> is modelled as a \<open>string\<close>, a list of 8-bit characters read as the code
  points below 256 (Starlette decodes header values as Latin-1, so this is the whole range
  of a header). Where the class of a character decides what the code does, in the scan
  of \<open>_extract_last_number\<close>, the text is a list of code points of any size and the
  class is the one of the Python runtime. A Python \<open>float\<close> that is only stored, compared
  and handed on is modelled by its exact rational value; NaN and the infinities are
  outside this part of the model. The builtin \<open>float\<close>, which rounds and overflows, is
  not computed here: it is a parameter, and the scan is written for any type of its
  values.

  Several classes of the repository share field names (\<open>score\<close>, \<open>rationale\<close>, ...). The
  fields of \<open>ScoreRequest\<close> keep their names; the others carry a prefix naming their class:
  \<open>c_\<close> for \<open>ScoreComputation\<close>, \<open>mqm_\<close> for \<open>MQMEval\<close>, \<open>sda_\<close> for
  \<open>StructuredDAReturn\<close>, \<open>row_\<close> for the ORM class \<open>TranslationScore\<close>, \<open>rec_\<close> for the
  schema \<open>TranslationScoreRecord\<close> and \<open>resp_\<close> for \<open>ScoreResponse\<close>.
\<close>

type_synonym float = rat
type_synonym uuid = nat
type_synonym datetime = int

text \<open>\<open>str.isspace\<close> on the code points below 256, the characters \<open>str.strip()\<close> removes.\<close>

definition is_space :: "char \<Rightarrow> bool" where
  "is_space c = (c \<in> set [CHR 0x09, CHR 0x0A, CHR 0x0B, CHR 0x0C, CHR 0x0D,
                           CHR 0x1C, CHR 0x1D, CHR 0x1E, CHR 0x1F, CHR 0x20, CHR 0x85, CHR 0xA0])"

definition lstrip :: "string \<Rightarrow> string" where
  "lstrip s = dropWhile is_space s"

definition rstrip :: "string \<Rightarrow> string" where
  "rstrip s = rev (dropWhile is_space (rev s))"

definition strip :: "string \<Rightarrow> string" where
  "strip s = rstrip (lstrip s)"

text \<open>
  The exceptions the request path can raise. \<open>HTTPException\<close> carries status code and
  detail; \<open>RequestValidationError\<close> is what FastAPI raises for a parameter outside the
  bounds declared with \<open>Query\<close>.
\<close>

datatype exn =
    ScoringServiceError string
  | LLMClientError string
  | IndexError
  | AttributeError
  | ValueError
  | HTTPException nat string
  | RequestValidationError

section \<open>schemas.py\<close>

datatype ScoringMethod = GEMBA_DA | GEMBA_MQM | GEMBA_ESA | STRUCTURED_DA

text \<open>The \<open>.value\<close> of a member.\<close>

fun ScoringMethod_value :: "ScoringMethod \<Rightarrow> string" where
  "ScoringMethod_value GEMBA_DA = ''GEMBA-DA''"
| "ScoringMethod_value GEMBA_MQM = ''GEMBA-MQM''"
| "ScoringMethod_value GEMBA_ESA = ''GEMBA-ESA''"
| "ScoringMethod_value STRUCTURED_DA = ''STRUCTURED-DA''"

text \<open>The call \<open>ScoringMethod(s)\<close>: the member with that value, or \<open>ValueError\<close>.\<close>

definition ScoringMethod_of :: "string \<Rightarrow> exn + ScoringMethod" where
  "ScoringMethod_of s =
     (if s = ''GEMBA-DA'' then Inr GEMBA_DA
      else if s = ''GEMBA-MQM'' then Inr GEMBA_MQM
      else if s = ''GEMBA-ESA'' then Inr GEMBA_ESA
      else if s = ''STRUCTURED-DA'' then Inr STRUCTURED_DA
      else Inl ValueError)"

text \<open>
  What the attribute \<open>payload.method\<close> can hold when it reaches the orchestrator: a member of
  the enumeration, which is what request validation produces, or a value that is not a
  member, here a plain string. \<open>ScoringMethod\<close> derives from \<open>str\<close>, so \<open>==\<close> against a
  member compares strings.
\<close>

datatype method_value = Member ScoringMethod | Foreign string

fun method_str :: "method_value \<Rightarrow> string" where
  "method_str (Member m) = ScoringMethod_value m"
| "method_str (Foreign s) = s"

definition method_eq :: "method_value \<Rightarrow> ScoringMethod \<Rightarrow> bool" where
  "method_eq v m = (method_str v = ScoringMethod_value m)"

text \<open>The attribute \<open>.value\<close>: a plain string has none.\<close>

fun method_dot_value :: "method_value \<Rightarrow> exn + string" where
  "method_dot_value (Member m) = Inr (ScoringMethod_value m)"
| "method_dot_value (Foreign s) = Inl AttributeError"

record ScoreRequest =
  source_lang :: string
  target_lang :: string
  source_text :: string
  target_text :: string
  "method" :: method_value

record ScoreResponse =
  resp_score :: float
  resp_method_used :: method_value
  resp_request_id :: uuid
  resp_adequacy :: "float option"
  resp_fluency :: "float option"
  resp_rationale :: "string option"

record TranslationScoreRecord =
  rec_id :: uuid
  rec_app_id :: string
  rec_source_lang :: string
  rec_target_lang :: string
  rec_scoring_method :: ScoringMethod
  rec_llm_model :: string
  rec_score :: float
  rec_adequacy_score :: "float option"
  rec_fluency_score :: "float option"
  rec_rationale :: "string option"
  rec_created_at :: datetime
  rec_target_text :: string

section \<open>models.py\<close>

record TranslationScore =
  row_id :: uuid
  row_app_id :: string
  row_source_lang :: string
  row_target_lang :: string
  row_source_text :: string
  row_target_text :: string
  row_scoring_method :: string
  row_llm_model :: string
  row_score :: float
  row_adequacy_score :: "float option"
  row_fluency_score :: "float option"
  row_rationale :: "string option"
  row_raw_llm_response :: "string option"
  row_created_at :: datetime

section \<open>prompts.py\<close>

text \<open>
  Each builder is \<open>dedent(template).strip().format(...)\<close>: the template is dedented and
  stripped before the fields are put in, so the fields enter as they are. The literals
  below are the dedented, stripped templates, cut at the placeholders.
\<close>

definition gemba_da_prompt :: "ScoreRequest \<Rightarrow> string" where
  \<open>gemba_da_prompt payload =
     ''Score the following translation from '' @
     source_lang payload @
     '' to '' @
     target_lang payload @
     '' on a continuous\<newline>'' @
     ''scale from 0 to 100, where a score of zero means "no meaning preserved" and score of one\<newline>'' @
     ''hundred means "perfect meaning and grammar".\<newline>'' @
     ''\<newline>'' @
     source_lang payload @
     '' source: "'' @
     source_text payload @
     ''"\<newline>'' @
     target_lang payload @
     '' translation: "'' @
     target_text payload @
     ''"\<newline>'' @
     ''Score:''\<close>

definition gemba_mqm_system_prompt :: "string" where
  \<open>gemba_mqm_system_prompt =
     ''You are an expert MQM evaluator. Identify translation errors and output a holistic quality\<newline>'' @
     ''score on a 0-100 scale (0 = unusable, 100 = perfect). Return ONLY JSON: {"score": number,\<newline>'' @
     ''"analysis": string describing notable errors}.''\<close>

definition gemba_mqm_few_shot_user :: "string" where
  \<open>gemba_mqm_few_shot_user =
     ''English source:\<newline>'' @
     ''```Hello world.```\<newline>'' @
     ''German translation:\<newline>'' @
     ''```Hallo Welt.```\<newline>'' @
     ''\<newline>'' @
     ''Based on the source segment and machine translation surrounded with triple backticks,\<newline>'' @
     ''identify error types in the translation and classify them.''\<close>

definition gemba_mqm_final_user :: "ScoreRequest \<Rightarrow> string" where
  \<open>gemba_mqm_final_user payload =
     source_lang payload @
     '' source:\<newline>'' @
     ''```'' @
     source_text payload @
     ''```\<newline>'' @
     target_lang payload @
     '' translation:\<newline>'' @
     ''```'' @
     target_text payload @
     ''```\<newline>'' @
     ''\<newline>'' @
     ''Based on the source segment and machine translation surrounded with triple backticks,\<newline>'' @
     ''identify error types in the translation and classify them. The categories of errors are:\<newline>'' @
     ''accuracy (addition, mistranslation, omission, untranslated text), fluency (character\<newline>'' @
     ''encoding, grammar, inconsistency, punctuation, register, spelling), style (awkward),\<newline>'' @
     ''terminology (inappropriate for context, inconsistent use), non-translation, other, or\<newline>'' @
     ''no-error. Each error is classified as one of three categories: critical, major, and minor.\<newline>'' @
     ''Critical errors inhibit comprehension of the text. Major errors disrupt the flow, but what\<newline>'' @
     ''the text is trying to say is still understandable. Minor errors are technically errors, but\<newline>'' @
     ''do not disrupt the flow or hinder comprehension.''\<close>

definition gemba_esa_error_prompt :: "ScoreRequest \<Rightarrow> string" where
  \<open>gemba_esa_error_prompt payload =
     source_lang payload @
     '' source:\<newline>'' @
     ''```'' @
     source_text payload @
     ''```\<newline>'' @
     target_lang payload @
     '' translation:\<newline>'' @
     ''```'' @
     target_text payload @
     ''```\<newline>'' @
     ''\<newline>'' @
     ''Based on the source segment and machine translation surrounded with triple backticks,\<newline>'' @
     ''identify error types in the translation and classify them. The categories of errors are:\<newline>'' @
     ''accuracy (addition, mistranslation, omission, untranslated text), fluency (character\<newline>'' @
     ''encoding, grammar, inconsistency, punctuation, register, spelling), style (awkward),\<newline>'' @
     ''terminology (inappropriate for context, inconsistent use), non-translation, other, or\<newline>'' @
     ''no-error. Each error is classified as one of two categories: major or minor. Major errors\<newline>'' @
     ''disrupt the flow and make the understandability of text difficult or impossible. Minor\<newline>'' @
     ''errors are errors that do not disrupt the flow significantly and what the text is trying to\<newline>'' @
     ''say is still understandable.''\<close>

definition gemba_esa_scoring_prompt :: "ScoreRequest \<Rightarrow> string \<Rightarrow> string" where
  \<open>gemba_esa_scoring_prompt payload errors =
     ''Given the translation from '' @
     source_lang payload @
     '' to '' @
     target_lang payload @
     '' and the annotated error spans,\<newline>'' @
     ''assign a score on a continuous scale from 0 to 100. The scale has following reference\<newline>'' @
     ''points:\<newline>'' @
     ''0="No meaning preserved", 33="Some meaning preserved", 66="Most meaning preserved and few\<newline>'' @
     ''grammar mistakes", up to 100="Perfect meaning and grammar".\<newline>'' @
     ''\<newline>'' @
     ''Score the following translation from '' @
     source_lang payload @
     '' source:\<newline>'' @
     ''```'' @
     source_text payload @
     ''```\<newline>'' @
     target_lang payload @
     '' translation:\<newline>'' @
     ''```'' @
     target_text payload @
     ''```\<newline>'' @
     ''Annotated error spans:\<newline>'' @
     ''```'' @
     errors @
     ''```\<newline>'' @
     ''Score (0-100):''\<close>

definition structured_da_system_message :: "string" where
  \<open>structured_da_system_message =
     ''You are an expert bilingual evaluator of machine translation quality. Be strict but fair.''\<close>

definition structured_da_user_message :: "ScoreRequest \<Rightarrow> string" where
  \<open>structured_da_user_message payload =
     ''Evaluate the quality of the following machine translation from '' @
     source_lang payload @
     '' to\<newline>'' @
     target_lang payload @
     ''.\<newline>'' @
     ''Return ONLY a JSON object with these fields:\<newline>'' @
     ''score: holistic quality 0-100 (float)\<newline>'' @
     ''adequacy: semantic accuracy and completeness 0-5 (float, where 5 = perfect meaning\<newline>'' @
     ''preservation)\<newline>'' @
     ''fluency: grammatical correctness and naturalness 0-5 (float, where 5 = perfect native\<newline>'' @
     ''fluency)\<newline>'' @
     ''rationale: brief explanation of the score (1-2 sentences)\<newline>'' @
     ''\<newline>'' @
     source_lang payload @
     '' source: '' @
     source_text payload @
     ''\<newline>'' @
     target_lang payload @
     '' hypothesis: '' @
     target_text payload @
     ''\<newline>'' @
     ''\<newline>'' @
     ''IMPORTANT: Output valid JSON only, no markdown fences or extra text.''\<close>

section \<open>services/llm.py\<close>

record ChatMessage =
  role :: string
  content :: string

text \<open>
  The gateway is the protocol \<open>LLMClientProtocol\<close>. A call is an event: every call made is
  appended to a history, and what a client answers may depend on the calls made before (any
  client with internal state is such a function of its history). \<open>Inl msg\<close> is the client
  raising \<open>LLMClientError(msg)\<close>. \<open>parse\<close> is generic in \<open>response_model\<close>; the
  orchestrator uses it at two models, which are the two typed fields below. The answer of
  \<open>parse\<close> is the list \<open>response.choices\<close>, each choice reduced to its
  \<open>message.parsed\<close>, which may be \<open>None\<close>. The orchestrator never passes
  \<open>temperature\<close>, which stays at its default.
\<close>

datatype call = CompleteCall "ChatMessage list" | ParseCall string "ChatMessage list"

record MQMEval =
  mqm_score :: float
  mqm_analysis :: string

record StructuredDAReturn =
  sda_score :: float
  sda_adequacy :: float
  sda_fluency :: float
  sda_rationale :: string

record llm_client =
  complete :: "call list \<Rightarrow> ChatMessage list \<Rightarrow> string + string"
  parse_MQMEval :: "call list \<Rightarrow> ChatMessage list \<Rightarrow> string + MQMEval option list"
  parse_StructuredDAReturn ::
    "call list \<Rightarrow> ChatMessage list \<Rightarrow> string + StructuredDAReturn option list"

definition raise_client :: "string + 'a \<Rightarrow> exn + 'a" where
  "raise_client r = (case r of Inl msg \<Rightarrow> Inl (LLMClientError msg) | Inr v \<Rightarrow> Inr v)"

definition llm_complete ::
  "llm_client \<Rightarrow> ChatMessage list \<Rightarrow> call list \<Rightarrow> (exn + string) \<times> call list" where
  "llm_complete client messages hist =
     (raise_client (complete client hist messages), hist @ [CompleteCall messages])"

definition llm_parse_MQMEval ::
  "llm_client \<Rightarrow> ChatMessage list \<Rightarrow> call list \<Rightarrow> (exn + MQMEval option list) \<times> call list" where
  "llm_parse_MQMEval client messages hist =
     (raise_client (parse_MQMEval client hist messages), hist @ [ParseCall ''MQMEval'' messages])"

definition llm_parse_StructuredDAReturn ::
  "llm_client \<Rightarrow> ChatMessage list \<Rightarrow> call list
     \<Rightarrow> (exn + StructuredDAReturn option list) \<times> call list" where
  "llm_parse_StructuredDAReturn client messages hist =
     (raise_client (parse_StructuredDAReturn client hist messages),
      hist @ [ParseCall ''StructuredDAReturn'' messages])"

section \<open>services/scoring.py\<close>

record ScoreComputation =
  c_method :: method_value
  c_score :: float
  c_llm_model :: string
  c_raw_response :: string
  c_adequacy :: "float option"
  c_fluency :: "float option"
  c_rationale :: "string option"

subsection \<open>The regular expression of \<open>_extract_last_number\<close>\<close>

text \<open>
  The text is a list of Unicode code points; \<open>code_points\<close> reads a \<open>string\<close> as one.
  45 is the hyphen-minus and 46 the full stop. The class \<open>\d\<close> of a \<open>str\<close> pattern is
  the Unicode category of decimal digits as the Python runtime has it, a table that is not
  in the repository: it is the parameter \<open>decimal\<close>.
\<close>

definition code_points :: "string \<Rightarrow> nat list" where
  "code_points s = map of_char s"

text \<open>
  \<open>match_body\<close> is \<open>\d+(?:\.\d+)?\<close> at the head of a text: the matched token and the
  text after it. \<open>\d+\<close> is greedy, and since the group after it is optional the longest
  run of digits is the first alternative that succeeds. The group is taken when a full
  stop and at least one digit follow.
\<close>

definition match_body :: "(nat \<Rightarrow> bool) \<Rightarrow> nat list \<Rightarrow> (nat list \<times> nat list) option" where
  "match_body decimal s =
     (let ds = takeWhile decimal s;
          r = dropWhile decimal s
      in if ds = [] then None
         else (case r of
                 c # r' \<Rightarrow>
                   if c = 46 \<and> takeWhile decimal r' \<noteq> []
                   then Some (ds @ c # takeWhile decimal r', dropWhile decimal r')
                   else Some (ds, r)
               | [] \<Rightarrow> Some (ds, r)))"

text \<open>
  \<open>match_at\<close> is the whole pattern \<open>-?\d+(?:\.\d+)?\<close> at the head of a text. The sign is
  tried first; when the rest of the pattern does not match behind it, the pattern is
  tried again without the sign.
\<close>

definition match_at :: "(nat \<Rightarrow> bool) \<Rightarrow> nat list \<Rightarrow> (nat list \<times> nat list) option" where
  "match_at decimal s =
     (case s of
        [] \<Rightarrow> None
      | c # cs \<Rightarrow>
          if c = 45
          then (case match_body decimal cs of
                  Some (tok, rest) \<Rightarrow> Some (c # tok, rest)
                | None \<Rightarrow> match_body decimal s)
          else match_body decimal s)"

text \<open>
  \<open>re.findall\<close>: the matches from left to right, none overlapping. Where the pattern does
  not match, the scan moves on by one character; after a match (never empty here) it goes
  on behind it.
\<close>

function findall :: "(nat \<Rightarrow> bool) \<Rightarrow> nat list \<Rightarrow> nat list list" where
  "findall decimal [] = []"
| "findall decimal (c # cs) =
     (case match_at decimal (c # cs) of
        None \<Rightarrow> findall decimal cs
      | Some (tok, rest) \<Rightarrow> tok # findall decimal rest)"
  by pat_completeness auto
termination
proof (relation "measure (\<lambda>(decimal, s). length s)")
  show "wf (measure (\<lambda>(decimal :: nat \<Rightarrow> bool, s :: nat list). length s))" by simp
next
  fix decimal :: "nat \<Rightarrow> bool" and c :: nat and cs :: "nat list"
  show "((decimal, cs), (decimal, c # cs)) \<in> measure (\<lambda>(decimal, s). length s)" by simp
next
  fix decimal :: "nat \<Rightarrow> bool" and c :: nat and cs :: "nat list" and p tok rest
  assume m: "match_at decimal (c # cs) = Some p" and p: "(tok, rest) = p"
  have body: "length r < length s" if "match_body decimal s = Some (t, r)" for s t r
  proof -
    have d: "length (dropWhile decimal xs) \<le> length xs" for xs
      by (simp add: length_dropWhile_le)
    from that have nz: "takeWhile decimal s \<noteq> []"
      by (auto simp: match_body_def Let_def split: if_splits)
    then have lt: "length (dropWhile decimal s) < length s"
      by (cases s) (auto simp: le_imp_less_Suc length_dropWhile_le split: if_splits)
    from that have "r = dropWhile decimal s
        \<or> (\<exists>r'. dropWhile decimal s = 46 # r' \<and> r = dropWhile decimal r')"
      by (auto simp: match_body_def Let_def split: if_splits list.splits)
    then show ?thesis
    proof
      assume "r = dropWhile decimal s"
      with lt show ?thesis by simp
    next
      assume "\<exists>r'. dropWhile decimal s = 46 # r' \<and> r = dropWhile decimal r'"
      then obtain r' where r': "dropWhile decimal s = 46 # r'"
        and r: "r = dropWhile decimal r'" by blast
      have "length r \<le> length r'" using r d by simp
      also have "length r' < length (dropWhile decimal s)" using r' by simp
      also have "\<dots> \<le> length s" by (rule d)
      finally show ?thesis .
    qed
  qed
  from m p have "(\<exists>t. match_body decimal cs = Some (t, rest))
      \<or> (\<exists>t. match_body decimal (c # cs) = Some (t, rest))"
    by (auto simp: match_at_def split: if_splits option.splits)
  then have "length rest < length (c # cs)"
    using body [of cs] body [of "c # cs"] by fastforce
  then show "((decimal, rest), (decimal, c # cs)) \<in> measure (\<lambda>(decimal, s). length s)" by simp
qed

text \<open>
  \<open>_extract_last_number\<close>: the builtin \<open>float\<close> applied to the last match. \<open>float\<close>
  accepts every token of the pattern, so it is a total parameter here.
\<close>

definition extract_last_number ::
  "(nat \<Rightarrow> bool) \<Rightarrow> (nat list \<Rightarrow> 'f) \<Rightarrow> nat list \<Rightarrow> exn + 'f" where
  "extract_last_number decimal pyfloat text =
     (let matches = findall decimal text
      in if matches = []
         then Inl (ScoringServiceError ''Could not parse numeric score from LLM response'')
         else Inr (pyfloat (last matches)))"



subsection \<open>The orchestrator\<close>

text \<open>
  What the orchestrator uses of the Python runtime and of Pydantic, as parameters: the
  table of decimal digits behind \<open>\d\<close>, the builtin \<open>float\<close>, and \<open>model_dump_json()\<close>
  at the two models, whose result the orchestrator only stores.
\<close>

record library =
  unicode_decimal :: "nat \<Rightarrow> bool"
  float_builtin :: "nat list \<Rightarrow> float"
  MQMEval_dump_json :: "MQMEval \<Rightarrow> string"
  StructuredDAReturn_dump_json :: "StructuredDAReturn \<Rightarrow> string"

record ScoringService =
  llm :: llm_client
  llm_model_name :: string

text \<open>
  \<open>_expect_parsed\<close>: \<open>response.choices[0]\<close> raises \<open>IndexError\<close> on an empty list; a
  first choice whose \<open>parsed\<close> is \<open>None\<close> raises \<open>ScoringServiceError\<close>.
\<close>

definition expect_parsed :: "'a option list \<Rightarrow> exn + 'a" where
  "expect_parsed response =
     (case response of
        [] \<Rightarrow> Inl IndexError
      | parsed # _ \<Rightarrow>
          (case parsed of
             None \<Rightarrow> Inl (ScoringServiceError ''LLM response missing structured payload'')
           | Some p \<Rightarrow> Inr p))"

definition score_gemba_da ::
  "ScoringService \<Rightarrow> library \<Rightarrow> ScoreRequest \<Rightarrow> call list
     \<Rightarrow> (exn + ScoreComputation) \<times> call list" where
  "score_gemba_da svc lib payload hist =
     (let messages = [\<lparr>role = ''user'', content = gemba_da_prompt payload\<rparr>]
      in case llm_complete (llm svc) messages hist of
           (Inl e, hist1) \<Rightarrow> (Inl e, hist1)
         | (Inr response, hist1) \<Rightarrow>
             (case extract_last_number (unicode_decimal lib) (float_builtin lib)
                     (code_points response) of
                Inl e \<Rightarrow> (Inl e, hist1)
              | Inr score \<Rightarrow>
                  (Inr \<lparr>c_method = method payload, c_score = score,
                        c_llm_model = llm_model_name svc, c_raw_response = response,
                        c_adequacy = None, c_fluency = None, c_rationale = None\<rparr>, hist1)))"

definition score_gemba_mqm ::
  "ScoringService \<Rightarrow> library \<Rightarrow> ScoreRequest \<Rightarrow> call list
     \<Rightarrow> (exn + ScoreComputation) \<times> call list" where
  \<open>score_gemba_mqm svc lib payload hist =
     (let few_shot_assistant =
            ''{"score": 100, "analysis": "No errors detected; translation is perfect."}'';
          messages = [\<lparr>role = ''system'', content = gemba_mqm_system_prompt\<rparr>,
                      \<lparr>role = ''user'', content = gemba_mqm_few_shot_user\<rparr>,
                      \<lparr>role = ''assistant'', content = few_shot_assistant\<rparr>,
                      \<lparr>role = ''user'', content = gemba_mqm_final_user payload\<rparr>]
      in case llm_parse_MQMEval (llm svc) messages hist of
           (Inl e, hist1) \<Rightarrow> (Inl e, hist1)
         | (Inr raw, hist1) \<Rightarrow>
             (case expect_parsed raw of
                Inl e \<Rightarrow> (Inl e, hist1)
              | Inr parsed \<Rightarrow>
                  (Inr \<lparr>c_method = method payload, c_score = mqm_score parsed,
                        c_llm_model = llm_model_name svc,
                        c_raw_response = MQMEval_dump_json lib parsed,
                        c_adequacy = None, c_fluency = None,
                        c_rationale = Some (mqm_analysis parsed)\<rparr>, hist1)))\<close>

definition score_gemba_esa ::
  "ScoringService \<Rightarrow> library \<Rightarrow> ScoreRequest \<Rightarrow> call list
     \<Rightarrow> (exn + ScoreComputation) \<times> call list" where
  "score_gemba_esa svc lib payload hist =
     (let error_messages = [\<lparr>role = ''user'', content = gemba_esa_error_prompt payload\<rparr>]
      in case llm_complete (llm svc) error_messages hist of
           (Inl e, hist1) \<Rightarrow> (Inl e, hist1)
         | (Inr error_analysis, hist1) \<Rightarrow>
             (let score_messages =
                    [\<lparr>role = ''user'',
                      content = gemba_esa_scoring_prompt payload error_analysis\<rparr>]
              in case llm_complete (llm svc) score_messages hist1 of
                   (Inl e, hist2) \<Rightarrow> (Inl e, hist2)
                 | (Inr score_response, hist2) \<Rightarrow>
                     (case extract_last_number (unicode_decimal lib) (float_builtin lib)
                             (code_points score_response) of
                        Inl e \<Rightarrow> (Inl e, hist2)
                      | Inr score \<Rightarrow>
                          (let combined_raw =
                                 ''Errors:\<newline>'' @ error_analysis @
                                 ''\<newline>---\<newline>Score:\<newline>'' @ score_response
                           in (Inr \<lparr>c_method = method payload, c_score = score,
                                     c_llm_model = llm_model_name svc,
                                     c_raw_response = combined_raw,
                                     c_adequacy = None, c_fluency = None,
                                     c_rationale = None\<rparr>, hist2)))))"

definition score_structured_da ::
  "ScoringService \<Rightarrow> library \<Rightarrow> ScoreRequest \<Rightarrow> call list
     \<Rightarrow> (exn + ScoreComputation) \<times> call list" where
  "score_structured_da svc lib payload hist =
     (let messages = [\<lparr>role = ''system'', content = structured_da_system_message\<rparr>,
                      \<lparr>role = ''user'', content = structured_da_user_message payload\<rparr>]
      in case llm_parse_StructuredDAReturn (llm svc) messages hist of
           (Inl e, hist1) \<Rightarrow> (Inl e, hist1)
         | (Inr raw, hist1) \<Rightarrow>
             (case expect_parsed raw of
                Inl e \<Rightarrow> (Inl e, hist1)
              | Inr parsed \<Rightarrow>
                  (Inr \<lparr>c_method = method payload, c_score = sda_score parsed,
                        c_llm_model = llm_model_name svc,
                        c_raw_response = StructuredDAReturn_dump_json lib parsed,
                        c_adequacy = Some (sda_adequacy parsed),
                        c_fluency = Some (sda_fluency parsed),
                        c_rationale = Some (sda_rationale parsed)\<rparr>, hist1)))"

text \<open>\<open>ScoringService.score\<close>: the chain of \<open>if method == ...\<close>, then the \<open>raise\<close>.\<close>

definition score ::
  "ScoringService \<Rightarrow> library \<Rightarrow> ScoreRequest \<Rightarrow> call list
     \<Rightarrow> (exn + ScoreComputation) \<times> call list" where
  "score svc lib payload hist =
     (let m = method payload
      in if method_eq m GEMBA_DA then score_gemba_da svc lib payload hist
         else if method_eq m GEMBA_MQM then score_gemba_mqm svc lib payload hist
         else if method_eq m GEMBA_ESA then score_gemba_esa svc lib payload hist
         else if method_eq m STRUCTURED_DA then score_structured_da svc lib payload hist
         else (Inl (ScoringServiceError (''Unsupported scoring method: '' @ method_str m)),
               hist))"

section \<open>dependencies.py\<close>

definition require_app_id :: "string option \<Rightarrow> exn + string" where
  "require_app_id x_app_id =
     (case x_app_id of
        None \<Rightarrow> Inl (HTTPException 401 ''Missing X-APP-ID header'')
      | Some h \<Rightarrow>
          if h = [] \<or> strip h = []
          then Inl (HTTPException 401 ''Missing X-APP-ID header'')
          else Inr (strip h))"

section \<open>api.py\<close>

text \<open>
  What a request can change: the calls made to the gateway and the table
  \<open>TranslationScores\<close>, a list of rows in the order they were written. The database is
  taken to be available; a failing commit is outside the model.
\<close>

record world =
  llm_calls :: "call list"
  TranslationScores :: "TranslationScore list"

text \<open>
  \<open>score_translation\<close>, the handler body. \<open>uid\<close> is what \<open>uuid.uuid4\<close> gives the new row
  and \<open>now\<close> what the database's \<open>now()\<close> gives it. Only \<open>ScoringServiceError\<close> is
  caught; any other exception leaves the handler as it is.
\<close>

definition score_translation ::
  "ScoringService \<Rightarrow> library \<Rightarrow> uuid \<Rightarrow> datetime \<Rightarrow> ScoreRequest \<Rightarrow> string \<Rightarrow> world
     \<Rightarrow> (exn + ScoreResponse) \<times> world" where
  "score_translation scoring_service lib uid now payload app_id w =
     (case score scoring_service lib payload (llm_calls w) of
        (Inl exc, hist1) \<Rightarrow>
          (case exc of
             ScoringServiceError msg \<Rightarrow> (Inl (HTTPException 500 msg), w\<lparr>llm_calls := hist1\<rparr>)
           | _ \<Rightarrow> (Inl exc, w\<lparr>llm_calls := hist1\<rparr>))
      | (Inr result, hist1) \<Rightarrow>
          (case method_dot_value (method payload) of
             Inl exc \<Rightarrow> (Inl exc, w\<lparr>llm_calls := hist1\<rparr>)
           | Inr method_value \<Rightarrow>
               (let record = \<lparr>row_id = uid, row_app_id = app_id,
                               row_source_lang = source_lang payload,
                               row_target_lang = target_lang payload,
                               row_source_text = source_text payload,
                               row_target_text = target_text payload,
                               row_scoring_method = method_value,
                               row_llm_model = c_llm_model result,
                               row_score = c_score result,
                               row_adequacy_score = c_adequacy result,
                               row_fluency_score = c_fluency result,
                               row_rationale = c_rationale result,
                               row_raw_llm_response = Some (c_raw_response result),
                               row_created_at = now\<rparr>
                in (Inr \<lparr>resp_score = c_score result, resp_method_used = method payload,
                          resp_request_id = row_id record,
                          resp_adequacy = c_adequacy result,
                          resp_fluency = c_fluency result,
                          resp_rationale = c_rationale result\<rparr>,
                    w\<lparr>llm_calls := hist1,
                      TranslationScores := TranslationScores w @ [record]\<rparr>))))"

text \<open>
  The route \<open>POST /score\<close>: FastAPI resolves the dependency \<open>require_app_id\<close> from the
  header and calls the handler only when it returned.
\<close>

definition POST_score ::
  "ScoringService \<Rightarrow> library \<Rightarrow> uuid \<Rightarrow> datetime \<Rightarrow> string option \<Rightarrow> ScoreRequest \<Rightarrow> world
     \<Rightarrow> (exn + ScoreResponse) \<times> world" where
  "POST_score scoring_service lib uid now x_app_id payload w =
     (case require_app_id x_app_id of
        Inl exc \<Rightarrow> (Inl exc, w)
      | Inr app_id \<Rightarrow> score_translation scoring_service lib uid now payload app_id w)"

text \<open>
  The status the client sees: that of an \<open>HTTPException\<close>, 422 for a validation error,
  and 500 for any other exception that leaves a handler (the server's answer to an
  unhandled exception).
\<close>

definition http_status :: "exn + 'a \<Rightarrow> nat" where
  "http_status r =
     (case r of
        Inr _ \<Rightarrow> 200
      | Inl (HTTPException code _) \<Rightarrow> code
      | Inl RequestValidationError \<Rightarrow> 422
      | Inl _ \<Rightarrow> 500)"

text \<open>
  The statement \<open>select(...).order_by(created_at.desc()).limit(limit)\<close> with the
  \<open>where\<close> clauses added to it is one SELECT: the conditions filter, the result is
  ordered, then cut. Rows with the same timestamp come in an order the database chooses;
  the model keeps them in table order.
\<close>

definition execute_select ::
  "(TranslationScore \<Rightarrow> bool) list \<Rightarrow> int \<Rightarrow> TranslationScore list \<Rightarrow> TranslationScore list" where
  "execute_select conds limit tbl =
     take (nat limit)
       (sort_key (\<lambda>row. - row_created_at row) (filter (\<lambda>row. list_all (\<lambda>c. c row) conds) tbl))"

definition to_record :: "TranslationScore \<Rightarrow> exn + TranslationScoreRecord" where
  "to_record row =
     (case ScoringMethod_of (row_scoring_method row) of
        Inl exc \<Rightarrow> Inl exc
      | Inr m \<Rightarrow>
          Inr \<lparr>rec_id = row_id row, rec_app_id = row_app_id row,
               rec_source_lang = row_source_lang row, rec_target_lang = row_target_lang row,
               rec_scoring_method = m, rec_llm_model = row_llm_model row,
               rec_score = row_score row, rec_adequacy_score = row_adequacy_score row,
               rec_fluency_score = row_fluency_score row, rec_rationale = row_rationale row,
               rec_created_at = row_created_at row, rec_target_text = row_target_text row\<rparr>)"

text \<open>The list comprehension: left to right, the first exception ends it.\<close>

fun comprehension :: "('a \<Rightarrow> exn + 'b) \<Rightarrow> 'a list \<Rightarrow> exn + 'b list" where
  "comprehension f [] = Inr []"
| "comprehension f (x # xs) =
     (case f x of
        Inl exc \<Rightarrow> Inl exc
      | Inr y \<Rightarrow> (case comprehension f xs of Inl exc \<Rightarrow> Inl exc | Inr ys \<Rightarrow> Inr (y # ys)))"

definition list_scores ::
  "int \<Rightarrow> float option \<Rightarrow> string option \<Rightarrow> TranslationScore list
     \<Rightarrow> exn + TranslationScoreRecord list" where
  "list_scores limit threshold app_id tbl =
     (let conds0 = [];
          conds1 = (case threshold of
                      Some t \<Rightarrow> conds0 @ [\<lambda>row. row_score row \<le> t]
                    | None \<Rightarrow> conds0);
          conds2 = (case app_id of
                      Some a \<Rightarrow> if a \<noteq> [] then conds1 @ [\<lambda>row. row_app_id row = a] else conds1
                    | None \<Rightarrow> conds1);
          rows = execute_select conds2 limit tbl
      in comprehension to_record rows)"

text \<open>
  The route \<open>GET /scores\<close>: the defaults and bounds declared with \<open>Query\<close>, then the
  handler.
\<close>

definition GET_scores ::
  "int option \<Rightarrow> float option \<Rightarrow> string option \<Rightarrow> TranslationScore list
     \<Rightarrow> exn + TranslationScoreRecord list" where
  "GET_scores limit threshold app_id tbl =
     (let limit1 = (case limit of None \<Rightarrow> 25 | Some l \<Rightarrow> l)
      in if limit1 < 1 \<or> 200 < limit1 then Inl RequestValidationError
         else if (case threshold of Some t \<Rightarrow> t < 0 \<or> 100 < t | None \<Rightarrow> False)
           then Inl RequestValidationError
         else if (case app_id of Some a \<Rightarrow> length a < 1 | None \<Rightarrow> False)
           then Inl RequestValidationError
         else list_scores limit1 threshold app_id tbl)"

text \<open>
  The condition the listing selects by, in the spec's words: the score is at most the
  threshold when one is given, and the \<open>app_id\<close> is the given one when one is given.
\<close>

definition selected :: "float option \<Rightarrow> string option \<Rightarrow> TranslationScore \<Rightarrow> bool" where
  "selected threshold app_id row =
     ((case threshold of Some t \<Rightarrow> row_score row \<le> t | None \<Rightarrow> True)
      \<and> (case app_id of Some a \<Rightarrow> row_app_id row = a | None \<Rightarrow> True))"

text \<open>
  A row whose stored method is the value of a member, which is what \<open>score_translation\<close>
  writes.
\<close>

definition valid_row :: "TranslationScore \<Rightarrow> bool" where
  "valid_row row = (case ScoringMethod_of (row_scoring_method row) of Inl _ \<Rightarrow> False | Inr _ \<Rightarrow> True)"

text \<open>The class of an exception, by name.\<close>

fun exn_class :: "exn \<Rightarrow> string" where
  "exn_class (ScoringServiceError _) = ''ScoringServiceError''"
| "exn_class (LLMClientError _) = ''LLMClientError''"
| "exn_class IndexError = ''IndexError''"
| "exn_class AttributeError = ''AttributeError''"
| "exn_class ValueError = ''ValueError''"
| "exn_class (HTTPException _ _) = ''HTTPException''"
| "exn_class RequestValidationError = ''RequestValidationError''"

section \<open>Example values\<close>

text \<open>
  A request in the manner of \<open>tests/test_score_endpoint.py\<close> and a test double for the
  gateway: its first \<open>complete\<close> answers \<open>no-error\<close> and every later one
  \<open>Score (0-100): 87.0\<close>, the two answers the double of \<open>tests/conftest.py\<close> gives to
  the prompts of GEMBA-ESA; \<open>parse\<close> answers with that double's stub objects.
\<close>

definition example_request :: "ScoringMethod \<Rightarrow> ScoreRequest" where
  "example_request m =
     \<lparr>source_lang = ''English'', target_lang = ''German'',
      source_text = ''Hello'', target_text = ''Hallo'', method = Member m\<rparr>"

definition stub_client :: llm_client where
  "stub_client =
     \<lparr>complete = (\<lambda>hist messages.
                    if hist = [] then Inr ''no-error'' else Inr ''Score (0-100): 87.0''),
      parse_MQMEval = (\<lambda>hist messages.
                    Inr [Some \<lparr>mqm_score = 95, mqm_analysis = ''Stub MQM response''\<rparr>]),
      parse_StructuredDAReturn = (\<lambda>hist messages.
                    Inr [Some \<lparr>sda_score = 93, sda_adequacy = 9 / 2, sda_fluency = 4,
                               sda_rationale = ''Stub structured response''\<rparr>])\<rparr>"

definition stub_service :: ScoringService where
  "stub_service = \<lparr>llm = stub_client, llm_model_name = ''fake''\<rparr>"

text \<open>
  Stand-ins for the runtime: a table of decimal digits holding the ASCII and the
  Arabic-Indic digits, and a \<open>float\<close> that is right on the tokens the examples use.
\<close>

definition stub_decimal :: "nat \<Rightarrow> bool" where
  "stub_decimal c = (48 \<le> c \<and> c \<le> 57 \<or> 1632 \<le> c \<and> c \<le> 1641)"

definition stub_float :: "nat list \<Rightarrow> rat" where
  "stub_float tok =
     (if tok = code_points ''87.0'' then 87
      else if tok = code_points ''98.5'' then 197 / 2
      else if tok = [1636, 1634] then 42
      else 0)"

definition stub_lib :: library where
  "stub_lib = \<lparr>unicode_decimal = stub_decimal, float_builtin = stub_float,
               MQMEval_dump_json = (\<lambda>_. ''{}''), StructuredDAReturn_dump_json = (\<lambda>_. ''{}'')\<rparr>"

definition empty_world :: world where
  "empty_world = \<lparr>llm_calls = [], TranslationScores = []\<rparr>"

text \<open>
  A request whose method is not a member, rows in the manner of the listing tests, and a
  table of three of them.
\<close>

definition foreign_request :: ScoreRequest where
  "foreign_request =
     \<lparr>source_lang = ''English'', target_lang = ''German'',
      source_text = ''Hello'', target_text = ''Hallo'', method = Foreign ''GEMBA-XYZ''\<rparr>"

definition example_row :: TranslationScore where
  "example_row =
     \<lparr>row_id = 1, row_app_id = ''widget-b'', row_source_lang = ''English'',
      row_target_lang = ''French'', row_source_text = ''Hi'', row_target_text = ''Salut'',
      row_scoring_method = ''GEMBA-DA'', row_llm_model = ''fake'', row_score = 70,
      row_adequacy_score = None, row_fluency_score = None, row_rationale = None,
      row_raw_llm_response = None, row_created_at = 1000\<rparr>"

definition example_table :: "TranslationScore list" where
  "example_table =
     [example_row\<lparr>row_id := 1, row_app_id := ''ui-test'', row_score := 90, row_created_at := 1000\<rparr>,
      example_row\<lparr>row_id := 2, row_app_id := ''ui-test'', row_score := 40, row_created_at := 2000\<rparr>,
      example_row\<lparr>row_id := 3, row_app_id := ''widget-b'', row_score := 30, row_created_at := 3000\<rparr>]"

text \<open>The exceptions a scoring call can end with.\<close>

definition scoring_failure :: "exn \<Rightarrow> bool" where
  "scoring_failure e = (case e of ScoringServiceError _ \<Rightarrow> True | LLMClientError _ \<Rightarrow> True
                           | IndexError \<Rightarrow> True | _ \<Rightarrow> False)"

section \<open>Stripping\<close>

lemma lstrip_split: "s = takeWhile is_space s @ lstrip s"
  by (simp add: lstrip_def)

lemma rstrip_split: "s = rstrip s @ rev (takeWhile is_space (rev s))"
proof -
  have "rstrip s @ rev (takeWhile is_space (rev s))
        = rev (takeWhile is_space (rev s) @ dropWhile is_space (rev s))"
    by (simp only: rev_append rstrip_def)
  also have "\<dots> = rev (rev s)" by (simp only: takeWhile_dropWhile_id)
  finally show ?thesis by simp
qed

lemma strip_split:
  "s = takeWhile is_space s @ strip s @ rev (takeWhile is_space (rev (lstrip s)))"
proof -
  have "lstrip s = strip s @ rev (takeWhile is_space (rev (lstrip s)))"
    unfolding strip_def by (rule rstrip_split)
  with lstrip_split [of s] show ?thesis by simp
qed

lemma strip_last: "strip s \<noteq> [] \<Longrightarrow> \<not> is_space (last (strip s))"
proof -
  assume ne: "strip s \<noteq> []"
  let ?d = "dropWhile is_space (rev (lstrip s))"
  from ne have d: "?d \<noteq> []" by (simp add: strip_def rstrip_def)
  then have "\<not> is_space (hd ?d)" by (rule hd_dropWhile)
  moreover have "last (strip s) = hd ?d" using d by (simp add: strip_def rstrip_def last_rev)
  ultimately show ?thesis by simp
qed

lemma strip_hd: "strip s \<noteq> [] \<Longrightarrow> \<not> is_space (hd (strip s))"
proof -
  assume ne: "strip s \<noteq> []"
  then have l: "lstrip s \<noteq> []" by (auto simp: strip_def rstrip_def)
  then have nh: "\<not> is_space (hd (lstrip s))" unfolding lstrip_def by (rule hd_dropWhile)
  have "lstrip s = strip s @ rev (takeWhile is_space (rev (lstrip s)))"
    unfolding strip_def by (rule rstrip_split)
  then have "hd (lstrip s) = hd (strip s)" using ne by (metis hd_append2)
  with nh show ?thesis by simp
qed

lemma strip_Nil [simp]: "strip [] = []"
  by (simp add: strip_def rstrip_def lstrip_def)

section \<open>How scoring fails\<close>

lemma ScoringMethod_value_inj: "ScoringMethod_value a = ScoringMethod_value b \<Longrightarrow> a = b"
  by (cases a; cases b) simp_all

lemma method_eq_unique: "method_eq v a \<Longrightarrow> method_eq v b \<Longrightarrow> a = b"
  by (simp add: method_eq_def ScoringMethod_value_inj)

lemma raise_client_cases:
  "raise_client r = Inl e \<Longrightarrow> \<exists>msg. e = LLMClientError msg"
  by (auto simp: raise_client_def split: sum.splits)

lemma extract_last_number_error:
  "extract_last_number decimal f s = Inl e \<Longrightarrow> \<exists>msg. e = ScoringServiceError msg"
  by (auto simp: extract_last_number_def Let_def split: if_splits)

lemma expect_parsed_error:
  "expect_parsed r = Inl e \<Longrightarrow> (\<exists>msg. e = ScoringServiceError msg) \<or> e = IndexError"
  by (auto simp: expect_parsed_def split: list.splits option.splits)

lemma score_gemba_da_error:
  "score_gemba_da svc lib payload hist = (Inl e, h) \<Longrightarrow> scoring_failure e"
  by (auto simp: score_gemba_da_def llm_complete_def Let_def scoring_failure_def
      split: sum.splits prod.splits dest!: raise_client_cases extract_last_number_error)

lemma score_gemba_esa_error:
  "score_gemba_esa svc lib payload hist = (Inl e, h) \<Longrightarrow> scoring_failure e"
  by (auto simp: score_gemba_esa_def llm_complete_def Let_def scoring_failure_def
      split: sum.splits prod.splits dest!: raise_client_cases extract_last_number_error)

lemma score_gemba_mqm_error:
  "score_gemba_mqm svc lib payload hist = (Inl e, h) \<Longrightarrow> scoring_failure e"
  by (auto simp: score_gemba_mqm_def llm_parse_MQMEval_def Let_def scoring_failure_def
      split: sum.splits prod.splits dest!: raise_client_cases expect_parsed_error)

lemma score_structured_da_error:
  "score_structured_da svc lib payload hist = (Inl e, h) \<Longrightarrow> scoring_failure e"
  by (auto simp: score_structured_da_def llm_parse_StructuredDAReturn_def Let_def scoring_failure_def
      split: sum.splits prod.splits dest!: raise_client_cases expect_parsed_error)

lemma score_error: "score svc lib payload hist = (Inl e, h) \<Longrightarrow> scoring_failure e"
  unfolding score_def Let_def
  by (auto split: if_splits dest: score_gemba_da_error score_gemba_esa_error
      score_gemba_mqm_error score_structured_da_error simp: scoring_failure_def)

lemma score_translation_failure:
  assumes "score svc lib payload (llm_calls w) = (Inl e, h)"
  shows "\<exists>exc. score_translation svc lib uid now payload app_id w = (Inl exc, w\<lparr>llm_calls := h\<rparr>)
           \<and> http_status (Inl exc :: exn + ScoreResponse) = 500"
proof -
  from assms have "scoring_failure e" by (rule score_error)
  with assms show ?thesis
    by (cases e) (simp_all add: score_translation_def scoring_failure_def http_status_def)
qed

lemma score_translation_success:
  assumes "score_translation svc lib uid now payload app_id w = (Inr resp, w')"
  shows "\<exists>row. TranslationScores w' = TranslationScores w @ [row]
           \<and> row_app_id row = app_id \<and> row_id row = resp_request_id resp"
  using assms unfolding score_translation_def Let_def
  by (auto split: prod.splits sum.splits exn.splits)

section \<open>The scan for numbers\<close>





lemma sublist_skip: "sublist xs zs \<Longrightarrow> sublist xs (ys @ zs)"
proof -
  assume "sublist xs zs"
  then obtain ps ss where "zs = ps @ xs @ ss" by (auto simp: sublist_def)
  then have "ys @ zs = (ys @ ps) @ xs @ ss" by simp
  then show ?thesis unfolding sublist_def by blast
qed



text \<open>What a match of the digits and the optional group is made of.\<close>

lemma match_body_shape:
  assumes "match_body decimal s = Some (tok, rest)"
  shows "\<exists>ds fp. tok = ds @ fp \<and> s = tok @ rest \<and> ds \<noteq> [] \<and> list_all decimal ds
           \<and> (fp = [] \<or> (\<exists>fs. fp = 46 # fs \<and> fs \<noteq> [] \<and> list_all decimal fs))
           \<and> (rest = dropWhile decimal s
                \<or> (\<exists>r'. dropWhile decimal s = 46 # r' \<and> rest = dropWhile decimal r'))"
proof -
  define ds where "ds = takeWhile decimal s"
  define r where "r = dropWhile decimal s"
  have s: "s = ds @ r" by (simp add: ds_def r_def)
  have dig: "list_all decimal ds"
    by (auto simp: ds_def list_all_iff dest: set_takeWhileD)
  from assms have m: "(if ds = [] then None
       else (case r of
               c # r' \<Rightarrow>
                 if c = 46 \<and> takeWhile decimal r' \<noteq> []
                 then Some (ds @ c # takeWhile decimal r', dropWhile decimal r')
                 else Some (ds, r)
             | [] \<Rightarrow> Some (ds, r))) = Some (tok, rest)"
    unfolding match_body_def ds_def r_def Let_def by simp
  then have ne: "ds \<noteq> []" by (auto split: if_splits)
  show ?thesis
  proof (cases "\<exists>r'. r = 46 # r' \<and> takeWhile decimal r' \<noteq> []")
    case True
    then obtain r' where r': "r = 46 # r'" and t: "takeWhile decimal r' \<noteq> []" by blast
    from m ne r' t have tok: "tok = ds @ 46 # takeWhile decimal r'"
      and rest: "rest = dropWhile decimal r'" by auto
    have fdig: "list_all decimal (takeWhile decimal r')"
      by (auto simp: list_all_iff dest: set_takeWhileD)
    have cat: "s = tok @ rest" using s r' tok rest by simp
    have rr: "\<exists>r'. dropWhile decimal s = 46 # r' \<and> rest = dropWhile decimal r'"
      using r' rest r_def by auto
    have fp: "\<exists>fs. 46 # takeWhile decimal r' = 46 # fs \<and> fs \<noteq> [] \<and> list_all decimal fs"
      using t fdig by simp
    have "tok = ds @ 46 # takeWhile decimal r' \<and> s = tok @ rest \<and> ds \<noteq> [] \<and> list_all decimal ds
           \<and> (46 # takeWhile decimal r' = []
                \<or> (\<exists>fs. 46 # takeWhile decimal r' = 46 # fs \<and> fs \<noteq> [] \<and> list_all decimal fs))
           \<and> (rest = dropWhile decimal s
                \<or> (\<exists>r'. dropWhile decimal s = 46 # r' \<and> rest = dropWhile decimal r'))"
      using tok cat ne dig fp rr by (intro conjI disjI2)
    then show ?thesis by (intro exI)
  next
    case False
    with m ne have tok: "tok = ds" and rest: "rest = r"
      by (auto split: list.splits if_splits)
    have cat: "s = tok @ rest" using s tok rest by simp
    have "tok = ds @ [] \<and> s = tok @ rest \<and> ds \<noteq> [] \<and> list_all decimal ds
           \<and> ([] = [] \<or> (\<exists>fs. [] = 46 # fs \<and> fs \<noteq> [] \<and> list_all decimal fs))
           \<and> (rest = dropWhile decimal s
                \<or> (\<exists>r'. dropWhile decimal s = 46 # r' \<and> rest = dropWhile decimal r'))"
      using tok cat ne dig rest r_def by simp
    then show ?thesis by (intro exI)
  qed
qed

lemma match_at_cases:
  assumes "match_at decimal s = Some (tok, rest)"
  shows "(\<exists>cs t. s = 45 # cs \<and> tok = 45 # t \<and> match_body decimal cs = Some (t, rest))
         \<or> match_body decimal s = Some (tok, rest)"
  using assms by (auto simp: match_at_def split: list.splits if_splits option.splits)

lemma match_at_shape:
  assumes "match_at decimal s = Some (tok, rest)"
  shows "\<exists>sign ds fp. tok = sign @ ds @ fp \<and> s = tok @ rest
           \<and> (sign = [] \<or> sign = [45]) \<and> ds \<noteq> [] \<and> list_all decimal ds
           \<and> (fp = [] \<or> (\<exists>fs. fp = 46 # fs \<and> fs \<noteq> [] \<and> list_all decimal fs))"
  using match_at_cases [OF assms]
proof
  assume "\<exists>cs t. s = 45 # cs \<and> tok = 45 # t \<and> match_body decimal cs = Some (t, rest)"
  then obtain cs t where s: "s = 45 # cs" and tok: "tok = 45 # t"
    and b: "match_body decimal cs = Some (t, rest)" by blast
  from match_body_shape [OF b] obtain ds fp where
    "t = ds @ fp" "cs = t @ rest" "ds \<noteq> []" "list_all decimal ds"
    "fp = [] \<or> (\<exists>fs. fp = 46 # fs \<and> fs \<noteq> [] \<and> list_all decimal fs)" by blast
  with s tok show ?thesis
    by (intro exI [of _ "[45]"] exI [of _ ds] exI [of _ fp]) simp
next
  assume b: "match_body decimal s = Some (tok, rest)"
  from match_body_shape [OF b] obtain ds fp where
    "tok = ds @ fp" "s = tok @ rest" "ds \<noteq> []" "list_all decimal ds"
    "fp = [] \<or> (\<exists>fs. fp = 46 # fs \<and> fs \<noteq> [] \<and> list_all decimal fs)" by blast
  then show ?thesis
    by (intro exI [of _ "[]"] exI [of _ ds] exI [of _ fp]) simp
qed



lemma match_body_digit: "decimal c \<Longrightarrow> match_body decimal (c # cs) \<noteq> None"
  by (auto simp: match_body_def Let_def split: list.splits)

lemma match_at_digit: "decimal c \<Longrightarrow> match_at decimal (c # cs) \<noteq> None"
  using match_body_digit [of decimal c cs]
  by (auto simp: match_at_def split: option.splits)

lemma match_at_has_digit:
  "match_at decimal s = Some (tok, rest) \<Longrightarrow> \<exists>c\<in>set s. decimal c"
proof -
  assume "match_at decimal s = Some (tok, rest)"
  from match_at_shape [OF this]
  obtain sign ds fp where "tok = sign @ ds @ fp" "s = tok @ rest" "ds \<noteq> []"
    "list_all decimal ds"
    by blast
  then show ?thesis by (cases ds) auto
qed

lemma findall_Nil_iff: "findall decimal s = [] \<longleftrightarrow> (\<forall>c\<in>set s. \<not> decimal c)"
proof (induction decimal s rule: findall.induct)
  case (1 decimal)
  show ?case by simp
next
  case (2 decimal c cs)
  show ?case
  proof (cases "match_at decimal (c # cs)")
    case None
    then have "\<not> decimal c" using match_at_digit by blast
    with None 2(1) show ?thesis by simp
  next
    case (Some p)
    then obtain tok rest where "match_at decimal (c # cs) = Some (tok, rest)" by (cases p) simp
    then show ?thesis using match_at_has_digit [of decimal "c # cs" tok rest] by simp
  qed
qed










lemma strip_example: "strip '' widget-a  '' = ''widget-a''"
  by (simp add: strip_def rstrip_def lstrip_def is_space_def)

section \<open>What a scoring call returns\<close>

lemma score_gemba_da_success:
  "score_gemba_da svc lib payload hist = (Inr result, h) \<Longrightarrow>
     c_adequacy result = None \<and> c_fluency result = None \<and> c_rationale result = None"
  by (auto simp: score_gemba_da_def Let_def split: prod.splits sum.splits)

lemma score_gemba_esa_success:
  "score_gemba_esa svc lib payload hist = (Inr result, h) \<Longrightarrow>
     c_adequacy result = None \<and> c_fluency result = None \<and> c_rationale result = None"
  by (auto simp: score_gemba_esa_def Let_def split: prod.splits sum.splits)

lemma score_gemba_mqm_success:
  "score_gemba_mqm svc lib payload hist = (Inr result, h) \<Longrightarrow>
     c_adequacy result = None \<and> c_fluency result = None \<and> c_rationale result \<noteq> None"
  by (auto simp: score_gemba_mqm_def Let_def split: prod.splits sum.splits)

lemma score_structured_da_success:
  "score_structured_da svc lib payload hist = (Inr result, h) \<Longrightarrow>
     c_adequacy result \<noteq> None \<and> c_fluency result \<noteq> None \<and> c_rationale result \<noteq> None"
  by (auto simp: score_structured_da_def Let_def split: prod.splits sum.splits)

lemma stub_structured_da:
  "score stub_service stub_lib (example_request STRUCTURED_DA) [] =
     (Inr \<lparr>c_method = Member STRUCTURED_DA, c_score = 93, c_llm_model = ''fake'',
           c_raw_response = ''{}'', c_adequacy = Some (9 / 2), c_fluency = Some 4,
           c_rationale = Some ''Stub structured response''\<rparr>,
      [ParseCall ''StructuredDAReturn''
         [\<lparr>role = ''system'', content = structured_da_system_message\<rparr>,
          \<lparr>role = ''user'', content = structured_da_user_message (example_request STRUCTURED_DA)\<rparr>]])"
  by (simp add: score_def method_eq_def example_request_def score_structured_da_def
      llm_parse_StructuredDAReturn_def raise_client_def stub_service_def stub_client_def
      stub_lib_def expect_parsed_def Let_def)

lemma stub_foreign:
  "score stub_service stub_lib foreign_request [] =
     (Inl (ScoringServiceError ''Unsupported scoring method: GEMBA-XYZ''), [])"
  by (simp add: score_def method_eq_def foreign_request_def)

lemma stub_gemba_da:
  "fst (score stub_service stub_lib (example_request GEMBA_DA) []) =
     Inl (ScoringServiceError ''Could not parse numeric score from LLM response'')"
  by (simp add: score_def method_eq_def example_request_def score_gemba_da_def
      llm_complete_def raise_client_def stub_service_def stub_client_def
      extract_last_number_def match_at_def match_body_def code_points_def stub_lib_def
      stub_decimal_def Let_def)

section \<open>The listing\<close>

lemma comprehension_Inr:
  "comprehension f xs = Inr ys \<Longrightarrow> list_all2 (\<lambda>x y. f x = Inr y) xs ys"
  by (induction xs arbitrary: ys) (auto split: sum.splits)

lemma comprehension_total:
  "\<forall>x\<in>set xs. \<exists>y. f x = Inr y \<Longrightarrow> \<exists>ys. comprehension f xs = Inr ys"
  by (induction xs) (auto split: sum.splits)

lemma ScoringMethod_of_value: "ScoringMethod_of (ScoringMethod_value m) = Inr m"
  by (cases m) (simp_all add: ScoringMethod_of_def)

lemma ScoringMethod_of_Inr: "ScoringMethod_of s = Inr m \<Longrightarrow> ScoringMethod_value m = s"
  by (auto simp: ScoringMethod_of_def split: if_splits)

lemma to_record_fields:
  assumes "to_record row = Inr rec"
  shows "rec_id rec = row_id row \<and> rec_app_id rec = row_app_id row
         \<and> rec_source_lang rec = row_source_lang row
         \<and> rec_target_lang rec = row_target_lang row
         \<and> ScoringMethod_value (rec_scoring_method rec) = row_scoring_method row
         \<and> rec_llm_model rec = row_llm_model row \<and> rec_score rec = row_score row
         \<and> rec_adequacy_score rec = row_adequacy_score row
         \<and> rec_fluency_score rec = row_fluency_score row
         \<and> rec_rationale rec = row_rationale row
         \<and> rec_created_at rec = row_created_at row
         \<and> rec_target_text rec = row_target_text row"
  using assms
  by (auto simp: to_record_def split: sum.splits dest: ScoringMethod_of_Inr)

lemma execute_select_subset: "set (execute_select conds limit tbl) \<subseteq> set tbl"
  by (auto simp: execute_select_def dest: in_set_takeD)

lemma conds_selected:
  assumes "app_id \<noteq> Some []"
  shows "list_all (\<lambda>c. c row)
           (case app_id of
              Some a \<Rightarrow>
                if a \<noteq> []
                then (case threshold of Some t \<Rightarrow> [] @ [\<lambda>row. row_score row \<le> t] | None \<Rightarrow> [])
                     @ [\<lambda>row. row_app_id row = a]
                else (case threshold of Some t \<Rightarrow> [] @ [\<lambda>row. row_score row \<le> t] | None \<Rightarrow> [])
            | None \<Rightarrow> (case threshold of Some t \<Rightarrow> [] @ [\<lambda>row. row_score row \<le> t] | None \<Rightarrow> []))
         = selected threshold app_id row"
  using assms by (auto simp: selected_def split: option.splits)

lemma list_scores_eq:
  assumes "app_id \<noteq> Some []"
  shows "list_scores limit threshold app_id tbl =
           comprehension to_record
             (take (nat limit)
                (sort_key (\<lambda>row. - row_created_at row) (filter (selected threshold app_id) tbl)))"
  unfolding list_scores_def execute_select_def Let_def conds_selected [OF assms] ..

lemma list_all2_forall:
  "list_all2 R xs ys \<Longrightarrow> y \<in> set ys \<Longrightarrow> \<exists>x\<in>set xs. R x y"
  by (induction rule: list_all2_induct) auto

lemma list_all2_sorted_wrt:
  assumes "list_all2 R xs ys" and "sorted_wrt P xs"
    and "\<And>x y x' y'. R x y \<Longrightarrow> R x' y' \<Longrightarrow> P x x' \<Longrightarrow> Q y y'"
  shows "sorted_wrt Q ys"
  using assms(1,2)
proof (induction rule: list_all2_induct)
  case Nil
  show ?case by simp
next
  case (Cons x xs y ys)
  have "\<forall>y'\<in>set ys. Q y y'"
  proof
    fix y' assume "y' \<in> set ys"
    with Cons(2) obtain x' where "x' \<in> set xs" "R x' y'"
      using list_all2_forall by force
    with Cons(1,4) assms(3) show "Q y y'" by auto
  qed
  with Cons show ?case by simp
qed

lemma score_translation_valid_rows:
  assumes "list_all valid_row (TranslationScores w)"
    and "score_translation svc lib uid now payload app_id w = (r, w')"
  shows "list_all valid_row (TranslationScores w')"
proof (cases "method payload")
  case (Member m)
  with assms show ?thesis
    unfolding score_translation_def Let_def
    by (auto simp: valid_row_def ScoringMethod_of_value split: prod.splits sum.splits exn.splits)
next
  case (Foreign s)
  with assms show ?thesis
    unfolding score_translation_def Let_def
    by (auto split: prod.splits sum.splits exn.splits)
qed

lemma valid_row_to_record: "valid_row row \<Longrightarrow> \<exists>rec. to_record row = Inr rec"
  by (auto simp: valid_row_def to_record_def split: sum.splits)

lemma insort_key_map:
  "insort_key k (u x) (map u xs) = map u (insort_key (\<lambda>y. k (u y)) x xs)"
  by (induction xs) auto

lemma sort_key_map: "sort_key k (map u xs) = map u (sort_key (\<lambda>y. k (u y)) xs)"
  by (induction xs) (auto simp: insort_key_map)

lemma comprehension_map: "comprehension f (map u xs) = comprehension (\<lambda>x. f (u x)) xs"
  by (induction xs) (auto split: sum.splits)

lemma execute_select_map:
  assumes "\<And>c row. c \<in> set conds \<Longrightarrow> c (u row) = c row"
    and "\<And>row. row_created_at (u row) = row_created_at row"
  shows "execute_select conds limit (map u tbl) = map u (execute_select conds limit tbl)"
proof -
  have "(\<lambda>row. list_all (\<lambda>c. c row) conds) \<circ> u = (\<lambda>row. list_all (\<lambda>c. c row) conds)"
    using assms(1) by (auto simp: fun_eq_iff list_all_iff)
  then show ?thesis
    by (simp add: execute_select_def filter_map sort_key_map take_map assms(2))
qed

lemma list_scores_ignores:
  "list_scores limit threshold app_id
     (map (\<lambda>row. row\<lparr>row_source_text := f row, row_raw_llm_response := g row\<rparr>) tbl)
   = list_scores limit threshold app_id tbl"
proof -
  define u where "u = (\<lambda>row. row\<lparr>row_source_text := f row, row_raw_llm_response := g row\<rparr>)"
  define conds :: "(TranslationScore \<Rightarrow> bool) list" where "conds =
    (case app_id of
       Some a \<Rightarrow>
         if a \<noteq> []
         then (case threshold of Some t \<Rightarrow> [] @ [\<lambda>row. row_score row \<le> t] | None \<Rightarrow> [])
              @ [\<lambda>row. row_app_id row = a]
         else (case threshold of Some t \<Rightarrow> [] @ [\<lambda>row. row_score row \<le> t] | None \<Rightarrow> [])
     | None \<Rightarrow> (case threshold of Some t \<Rightarrow> [] @ [\<lambda>row. row_score row \<le> t] | None \<Rightarrow> []))"
  have ls: "list_scores limit threshold app_id tb
              = comprehension to_record (execute_select conds limit tb)" for tb
    unfolding list_scores_def Let_def conds_def ..
  have rec: "to_record (u row) = to_record row" for row
    by (simp add: to_record_def u_def split: sum.splits)
  have cr: "row_created_at (u row) = row_created_at row" for row
    by (simp add: u_def)
  have inv: "c (u row) = c row" if "c \<in> set conds" for c row
    using that unfolding conds_def by (auto simp: u_def split: option.splits if_splits)
  have "execute_select conds limit (map u tbl) = map u (execute_select conds limit tbl)"
    using inv cr by (rule execute_select_map)
  then have "list_scores limit threshold app_id (map u tbl)
               = list_scores limit threshold app_id tbl"
    by (simp add: ls comprehension_map rec)
  then show ?thesis by (simp add: u_def)
qed

lemma example_table_listing:
  "GET_scores (Some 2) (Some 60) None example_table =
     Inr [\<lparr>rec_id = 3, rec_app_id = ''widget-b'', rec_source_lang = ''English'',
           rec_target_lang = ''French'', rec_scoring_method = GEMBA_DA, rec_llm_model = ''fake'',
           rec_score = 30, rec_adequacy_score = None, rec_fluency_score = None,
           rec_rationale = None, rec_created_at = 3000, rec_target_text = ''Salut''\<rparr>,
          \<lparr>rec_id = 2, rec_app_id = ''ui-test'', rec_source_lang = ''English'',
           rec_target_lang = ''French'', rec_scoring_method = GEMBA_DA, rec_llm_model = ''fake'',
           rec_score = 40, rec_adequacy_score = None, rec_fluency_score = None,
           rec_rationale = None, rec_created_at = 2000, rec_target_text = ''Salut''\<rparr>]"
  by (simp add: GET_scores_def list_scores_def execute_select_def example_table_def
      example_row_def to_record_def ScoringMethod_of_def Let_def)

lemma example_table_valid: "list_all valid_row example_table"
  by (simp add: example_table_def example_row_def valid_row_def ScoringMethod_of_def)

section \<open>Three ways for scoring to fail\<close>

text \<open>
  An answer without a digit, a gateway that raises, and a structured answer whose first
  choice has no parsed payload each end the scoring call with an exception.
\<close>

lemma gemba_da_no_number:
  assumes "method_eq (method payload) GEMBA_DA"
    and "complete (llm svc) hist [\<lparr>role = ''user'', content = gemba_da_prompt payload\<rparr>] = Inr r"
    and "\<forall>c\<in>set (code_points r). \<not> unicode_decimal lib c"
  shows "fst (score svc lib payload hist) =
           Inl (ScoringServiceError ''Could not parse numeric score from LLM response'')"
proof -
  from assms(3) have "findall (unicode_decimal lib) (code_points r) = []"
    by (simp add: findall_Nil_iff)
  with assms(1,2) show ?thesis
    by (simp add: score_def score_gemba_da_def llm_complete_def raise_client_def
        extract_last_number_def)
qed

lemma gateway_failure:
  assumes "method_eq (method payload) GEMBA_DA"
    and "complete (llm svc) hist [\<lparr>role = ''user'', content = gemba_da_prompt payload\<rparr>] = Inl msg"
  shows "fst (score svc lib payload hist) = Inl (LLMClientError msg)"
  using assms
  by (simp add: score_def score_gemba_da_def llm_complete_def raise_client_def)

lemma structured_da_no_payload:
  assumes "method_eq (method payload) STRUCTURED_DA"
    and "parse_StructuredDAReturn (llm svc) hist
           [\<lparr>role = ''system'', content = structured_da_system_message\<rparr>,
            \<lparr>role = ''user'', content = structured_da_user_message payload\<rparr>] = Inr (None # rest)"
  shows "fst (score svc lib payload hist) =
           Inl (ScoringServiceError ''LLM response missing structured payload'')"
proof -
  from assms(1) have "\<not> method_eq (method payload) GEMBA_DA"
    "\<not> method_eq (method payload) GEMBA_MQM" "\<not> method_eq (method payload) GEMBA_ESA"
    by (auto dest: method_eq_unique)
  with assms show ?thesis
    by (simp add: score_def score_structured_da_def llm_parse_StructuredDAReturn_def
        raise_client_def expect_parsed_def)
qed

section \<open>The header check\<close>

text \<open>
  C8. When the header \<open>X-APP-ID\<close> is absent, or blank (empty once stripped), the route
  \<open>POST /score\<close> ends with the HTTP exception 401 whose detail contains
  \<open>Missing X-APP-ID\<close>, and nothing has happened: no call to the gateway was made and
  no row was written.
\<close>

theorem require_app_id_blank:
  assumes "case x_app_id of None \<Rightarrow> True | Some h \<Rightarrow> strip h = []"
  shows "POST_score scoring_service lib uid now x_app_id payload w =
           (Inl (HTTPException 401 ''Missing X-APP-ID header''), w)
         \<and> http_status (fst (POST_score scoring_service lib uid now x_app_id payload w)) = 401
         \<and> sublist ''Missing X-APP-ID'' ''Missing X-APP-ID header''"
proof -
  from assms have r: "require_app_id x_app_id = Inl (HTTPException 401 ''Missing X-APP-ID header'')"
    by (auto simp: require_app_id_def split: option.splits)
  have "prefix ''Missing X-APP-ID'' ''Missing X-APP-ID header''" by simp
  then have "sublist ''Missing X-APP-ID'' ''Missing X-APP-ID header''"
    by (rule prefix_imp_sublist)
  with r show ?thesis by (simp add: POST_score_def http_status_def)
qed

theorem require_app_id_blank_witness:
  "strip ''   '' = []
   \<and> POST_score stub_service stub_lib 1 0 (Some ''   '') (example_request GEMBA_DA) empty_world
       = (Inl (HTTPException 401 ''Missing X-APP-ID header''), empty_world)"
  using require_app_id_blank [of "Some ''   ''" stub_service stub_lib 1 0
      "example_request GEMBA_DA" empty_world]
  by (simp add: strip_def rstrip_def lstrip_def is_space_def)

text \<open>
  C10. A header that is not empty once stripped is accepted, and the value handed on is
  the stripped header: the header is that value between two runs of whitespace, and the
  value neither starts nor ends with whitespace. When the request is then scored and
  answered, exactly one row has been added to the table, its \<open>app_id\<close> is the stripped
  header (which is what the \<open>app_id\<close> filter of the listing compares with), and its id
  is the \<open>request_id\<close> of the response.
\<close>

theorem app_id_stored_stripped:
  assumes "strip h \<noteq> []"
  shows "require_app_id (Some h) = Inr (strip h)
         \<and> (\<exists>l r. h = l @ strip h @ r \<and> (\<forall>c\<in>set l. is_space c) \<and> (\<forall>c\<in>set r. is_space c))
         \<and> \<not> is_space (hd (strip h)) \<and> \<not> is_space (last (strip h))
         \<and> (\<forall>resp w'. POST_score scoring_service lib uid now (Some h) payload w = (Inr resp, w')
               \<longrightarrow> (\<exists>row. TranslationScores w' = TranslationScores w @ [row]
                         \<and> row_app_id row = strip h \<and> row_id row = resp_request_id resp))"
proof -
  from assms have hne: "h \<noteq> []" by auto
  with assms have req: "require_app_id (Some h) = Inr (strip h)"
    by (simp add: require_app_id_def)
  have split: "\<exists>l r. h = l @ strip h @ r \<and> (\<forall>c\<in>set l. is_space c) \<and> (\<forall>c\<in>set r. is_space c)"
  proof (intro exI conjI)
    show "h = takeWhile is_space h @ strip h @ rev (takeWhile is_space (rev (lstrip h)))"
      by (rule strip_split)
    show "\<forall>c\<in>set (takeWhile is_space h). is_space c"
      by (auto dest: set_takeWhileD)
    show "\<forall>c\<in>set (rev (takeWhile is_space (rev (lstrip h)))). is_space c"
      by (auto dest: set_takeWhileD)
  qed
  have stored: "\<exists>row. TranslationScores w' = TranslationScores w @ [row]
                  \<and> row_app_id row = strip h \<and> row_id row = resp_request_id resp"
    if "POST_score scoring_service lib uid now (Some h) payload w = (Inr resp, w')" for resp w'
  proof -
    from that req
    have "score_translation scoring_service lib uid now payload (strip h) w = (Inr resp, w')"
      by (simp add: POST_score_def)
    then show ?thesis by (rule score_translation_success)
  qed
  from req split strip_hd [OF assms] strip_last [OF assms] stored show ?thesis by blast
qed

theorem app_id_stored_stripped_witness:
  "strip '' widget-a  '' \<noteq> []
   \<and> require_app_id (Some '' widget-a  '') = Inr ''widget-a''
   \<and> map row_app_id (TranslationScores (snd (POST_score stub_service stub_lib 7 1000
         (Some '' widget-a  '') (example_request GEMBA_MQM) empty_world))) = [''widget-a'']"
  using app_id_stored_stripped [of " '' widget-a  ''" stub_service stub_lib 7 1000
      "example_request GEMBA_MQM" empty_world]
  by (simp add: strip_example POST_score_def require_app_id_def score_translation_def score_def
      method_eq_def example_request_def score_gemba_mqm_def llm_parse_MQMEval_def
      raise_client_def stub_service_def stub_client_def expect_parsed_def empty_world_def
      Let_def)

section \<open>Score extraction\<close>



section \<open>Failure of scoring\<close>

text \<open>
  C5. When the header check has passed and the scoring call ends with an exception
  (\<open>ScoringServiceError\<close> for a text without a number or a missing structured payload,
  \<open>LLMClientError\<close> from the gateway, \<open>IndexError\<close> for an answer without choices), the
  route ends with an exception whose status is 500, never with a response, and the table
  is as it was.
\<close>

theorem scoring_failure_persists_nothing:
  assumes "require_app_id x_app_id = Inr app_id"
    and "fst (score scoring_service lib payload (llm_calls w)) = Inl e"
  shows "(\<exists>exc. fst (POST_score scoring_service lib uid now x_app_id payload w) = Inl exc)
         \<and> http_status (fst (POST_score scoring_service lib uid now x_app_id payload w)) = 500
         \<and> TranslationScores (snd (POST_score scoring_service lib uid now x_app_id payload w))
             = TranslationScores w"
proof -
  obtain h where "score scoring_service lib payload (llm_calls w) = (Inl e, h)"
    using assms(2) by (cases "score scoring_service lib payload (llm_calls w)") simp
  then obtain exc where
    "score_translation scoring_service lib uid now payload app_id w = (Inl exc, w\<lparr>llm_calls := h\<rparr>)"
    and "http_status (Inl exc :: exn + ScoreResponse) = 500"
    using score_translation_failure by blast
  with assms(1) show ?thesis by (simp add: POST_score_def)
qed

theorem scoring_failure_persists_nothing_witness:
  "require_app_id (Some ''unit-test-client'') = Inr ''unit-test-client''
   \<and> fst (score stub_service stub_lib (example_request GEMBA_DA) [])
       = Inl (ScoringServiceError ''Could not parse numeric score from LLM response'')
   \<and> http_status (fst (POST_score stub_service stub_lib 7 1000 (Some ''unit-test-client'')
         (example_request GEMBA_DA) empty_world)) = 500
   \<and> TranslationScores (snd (POST_score stub_service stub_lib 7 1000 (Some ''unit-test-client'')
         (example_request GEMBA_DA) empty_world)) = []"
proof -
  have a: "require_app_id (Some ''unit-test-client'') = Inr ''unit-test-client''"
    by (simp add: require_app_id_def strip_def rstrip_def lstrip_def is_space_def)
  have b: "fst (score stub_service stub_lib (example_request GEMBA_DA) (llm_calls empty_world))
       = Inl (ScoringServiceError ''Could not parse numeric score from LLM response'')"
    by (simp add: score_def method_eq_def example_request_def score_gemba_da_def
      llm_complete_def raise_client_def stub_service_def stub_client_def empty_world_def
      extract_last_number_def match_at_def match_body_def code_points_def stub_lib_def
      stub_decimal_def Let_def)
  from scoring_failure_persists_nothing [OF a b, of 7 1000] a b show ?thesis
    by (simp add: empty_world_def)
qed

section \<open>The four methods\<close>

text \<open>
  C6. A scoring call that returns gives, for STRUCTURED-DA, adequacy, fluency and
  rationale all present; for GEMBA-MQM, a rationale and neither adequacy nor fluency; for
  GEMBA-DA and GEMBA-ESA, none of the three.
\<close>

theorem score_optional_fields:
  assumes "score svc lib payload hist = (Inr result, h)"
  shows "(method_eq (method payload) STRUCTURED_DA \<longrightarrow>
            c_adequacy result \<noteq> None \<and> c_fluency result \<noteq> None \<and> c_rationale result \<noteq> None)
         \<and> (method_eq (method payload) GEMBA_MQM \<longrightarrow>
            c_rationale result \<noteq> None \<and> c_adequacy result = None \<and> c_fluency result = None)
         \<and> (method_eq (method payload) GEMBA_DA \<or> method_eq (method payload) GEMBA_ESA \<longrightarrow>
            c_adequacy result = None \<and> c_fluency result = None \<and> c_rationale result = None)"
proof (intro conjI impI)
  assume m: "method_eq (method payload) STRUCTURED_DA"
  then have "\<not> method_eq (method payload) GEMBA_DA" "\<not> method_eq (method payload) GEMBA_MQM"
    "\<not> method_eq (method payload) GEMBA_ESA" by (auto dest: method_eq_unique)
  with m assms have "score_structured_da svc lib payload hist = (Inr result, h)"
    by (simp add: score_def)
  then show "c_adequacy result \<noteq> None" "c_fluency result \<noteq> None" "c_rationale result \<noteq> None"
    by (auto dest: score_structured_da_success)
next
  assume m: "method_eq (method payload) GEMBA_MQM"
  then have "\<not> method_eq (method payload) GEMBA_DA" by (auto dest: method_eq_unique)
  with m assms have "score_gemba_mqm svc lib payload hist = (Inr result, h)"
    by (simp add: score_def)
  then show "c_rationale result \<noteq> None" "c_adequacy result = None" "c_fluency result = None"
    by (auto dest: score_gemba_mqm_success)
next
  assume m: "method_eq (method payload) GEMBA_DA \<or> method_eq (method payload) GEMBA_ESA"
  have "c_adequacy result = None \<and> c_fluency result = None \<and> c_rationale result = None"
    using m
  proof
    assume d: "method_eq (method payload) GEMBA_DA"
    with assms have "score_gemba_da svc lib payload hist = (Inr result, h)" by (simp add: score_def)
    then show ?thesis by (rule score_gemba_da_success)
  next
    assume e: "method_eq (method payload) GEMBA_ESA"
    then have "\<not> method_eq (method payload) GEMBA_DA" "\<not> method_eq (method payload) GEMBA_MQM"
      by (auto dest: method_eq_unique)
    with e assms have "score_gemba_esa svc lib payload hist = (Inr result, h)" by (simp add: score_def)
    then show ?thesis by (rule score_gemba_esa_success)
  qed
  then show "c_adequacy result = None" "c_fluency result = None" "c_rationale result = None"
    by simp_all
qed

theorem score_optional_fields_witness:
  "method_eq (method (example_request STRUCTURED_DA)) STRUCTURED_DA
   \<and> c_adequacy (projr (fst (score stub_service stub_lib (example_request STRUCTURED_DA) [])))
       = Some (9 / 2)
   \<and> c_fluency (projr (fst (score stub_service stub_lib (example_request STRUCTURED_DA) [])))
       = Some 4
   \<and> c_rationale (projr (fst (score stub_service stub_lib (example_request STRUCTURED_DA) [])))
       \<noteq> None"
proof -
  have m: "method_eq (method (example_request STRUCTURED_DA)) STRUCTURED_DA"
    by (simp add: method_eq_def example_request_def)
  from score_optional_fields [OF stub_structured_da] m show ?thesis
    by (simp add: stub_structured_da)
qed

text \<open>
  C3. For a request with method GEMBA-ESA whose first gateway call returns, the scoring
  call makes exactly two \<open>complete\<close> calls, one after the other: the first with the
  error prompt, the second with the scoring prompt built from the first call's answer,
  which that prompt contains as it is. When the second call returns too, the score is
  \<open>extract_last_number\<close> of its answer (the function GEMBA-DA uses), and the raw
  response is \<open>Errors:\<close>, the first answer, the marker \<open>---\<close>, \<open>Score:\<close> and the
  second answer.
\<close>

theorem gemba_esa_two_calls:
  assumes "method_eq (method payload) GEMBA_ESA"
    and "complete (llm svc) hist
           [\<lparr>role = ''user'', content = gemba_esa_error_prompt payload\<rparr>] = Inr error_analysis"
  shows "snd (score svc lib payload hist) =
           hist @ [CompleteCall [\<lparr>role = ''user'', content = gemba_esa_error_prompt payload\<rparr>],
                   CompleteCall [\<lparr>role = ''user'',
                                  content = gemba_esa_scoring_prompt payload error_analysis\<rparr>]]
         \<and> sublist error_analysis (gemba_esa_scoring_prompt payload error_analysis)
         \<and> (\<forall>score_response.
               complete (llm svc)
                 (hist @ [CompleteCall [\<lparr>role = ''user'',
                                         content = gemba_esa_error_prompt payload\<rparr>]])
                 [\<lparr>role = ''user'', content = gemba_esa_scoring_prompt payload error_analysis\<rparr>]
               = Inr score_response \<longrightarrow>
               fst (score svc lib payload hist) =
                 (case extract_last_number (unicode_decimal lib) (float_builtin lib)
                         (code_points score_response) of
                    Inl e \<Rightarrow> Inl e
                  | Inr v \<Rightarrow>
                      Inr \<lparr>c_method = method payload, c_score = v,
                           c_llm_model = llm_model_name svc,
                           c_raw_response = ''Errors:\<newline>'' @ error_analysis @
                             ''\<newline>---\<newline>Score:\<newline>'' @ score_response,
                           c_adequacy = None, c_fluency = None, c_rationale = None\<rparr>))"
proof -
  from assms(1) have "\<not> method_eq (method payload) GEMBA_DA"
    "\<not> method_eq (method payload) GEMBA_MQM" by (auto dest: method_eq_unique)
  with assms(1) have sc: "score svc lib payload hist = score_gemba_esa svc lib payload hist"
    by (simp add: score_def)
  have calls: "snd (score_gemba_esa svc lib payload hist) =
           hist @ [CompleteCall [\<lparr>role = ''user'', content = gemba_esa_error_prompt payload\<rparr>],
                   CompleteCall [\<lparr>role = ''user'',
                                  content = gemba_esa_scoring_prompt payload error_analysis\<rparr>]]"
    using assms(2)
    by (simp add: score_gemba_esa_def llm_complete_def raise_client_def Let_def
        split: sum.splits prod.splits)
  have sub: "sublist error_analysis (gemba_esa_scoring_prompt payload error_analysis)"
    unfolding gemba_esa_scoring_prompt_def
    by (rule sublist_skip sublist_append_rightI)+
  have res: "fst (score_gemba_esa svc lib payload hist) =
                 (case extract_last_number (unicode_decimal lib) (float_builtin lib)
                         (code_points score_response) of
                    Inl e \<Rightarrow> Inl e
                  | Inr v \<Rightarrow>
                      Inr \<lparr>c_method = method payload, c_score = v,
                           c_llm_model = llm_model_name svc,
                           c_raw_response = ''Errors:\<newline>'' @ error_analysis @
                             ''\<newline>---\<newline>Score:\<newline>'' @ score_response,
                           c_adequacy = None, c_fluency = None, c_rationale = None\<rparr>)"
    if "complete (llm svc)
          (hist @ [CompleteCall [\<lparr>role = ''user'', content = gemba_esa_error_prompt payload\<rparr>]])
          [\<lparr>role = ''user'', content = gemba_esa_scoring_prompt payload error_analysis\<rparr>]
        = Inr score_response" for score_response
    using assms(2) that
    by (simp add: score_gemba_esa_def llm_complete_def raise_client_def Let_def
        split: sum.splits)
  from calls sub res show ?thesis unfolding sc by blast
qed

theorem gemba_esa_two_calls_witness:
  "method_eq (method (example_request GEMBA_ESA)) GEMBA_ESA
   \<and> complete (llm stub_service) []
        [\<lparr>role = ''user'', content = gemba_esa_error_prompt (example_request GEMBA_ESA)\<rparr>]
       = Inr ''no-error''
   \<and> snd (score stub_service stub_lib (example_request GEMBA_ESA) []) =
        [CompleteCall [\<lparr>role = ''user'',
                        content = gemba_esa_error_prompt (example_request GEMBA_ESA)\<rparr>],
         CompleteCall [\<lparr>role = ''user'',
                        content = gemba_esa_scoring_prompt (example_request GEMBA_ESA)
                                    ''no-error''\<rparr>]]
   \<and> fst (score stub_service stub_lib (example_request GEMBA_ESA) []) =
        Inr \<lparr>c_method = Member GEMBA_ESA, c_score = 87, c_llm_model = ''fake'',
             c_raw_response =
               ''Errors:\<newline>no-error\<newline>---\<newline>Score:\<newline>Score (0-100): 87.0'',
             c_adequacy = None, c_fluency = None, c_rationale = None\<rparr>"
proof -
  have a: "method_eq (method (example_request GEMBA_ESA)) GEMBA_ESA"
    by (simp add: method_eq_def example_request_def)
  have b: "complete (llm stub_service) []
        [\<lparr>role = ''user'', content = gemba_esa_error_prompt (example_request GEMBA_ESA)\<rparr>]
       = Inr ''no-error''"
    by (simp add: stub_service_def stub_client_def)
  have c: "complete (llm stub_service)
        ([] @ [CompleteCall [\<lparr>role = ''user'',
                 content = gemba_esa_error_prompt (example_request GEMBA_ESA)\<rparr>]])
        [\<lparr>role = ''user'',
          content = gemba_esa_scoring_prompt (example_request GEMBA_ESA) ''no-error''\<rparr>]
       = Inr ''Score (0-100): 87.0''"
    by (simp add: stub_service_def stub_client_def)
  have d: "extract_last_number (unicode_decimal stub_lib) (float_builtin stub_lib)
             (code_points ''Score (0-100): 87.0'') = Inr 87"
    by (simp add: extract_last_number_def match_at_def match_body_def code_points_def
        stub_lib_def stub_decimal_def stub_float_def Let_def)
  have e: "method (example_request GEMBA_ESA) = Member GEMBA_ESA"
    "llm_model_name stub_service = ''fake''"
    by (simp_all add: example_request_def stub_service_def)
  from gemba_esa_two_calls [OF a b, of stub_lib] a b c d e show ?thesis
    by simp
qed

text \<open>
  C4, as the claim has it: the error for a method outside the enumeration is of a class
  of its own. It is not: it has the class of the error for a text without a number.
\<close>

theorem unsupported_method_not_distinct:
  "\<not> (exn_class (projl (fst (score stub_service stub_lib foreign_request [])))
        \<noteq> exn_class (projl (fst (score stub_service stub_lib (example_request GEMBA_DA) []))))"
  by (simp add: stub_foreign stub_gemba_da)

text \<open>
  C4, amended. A method value that equals no member makes \<open>score\<close> raise
  \<open>ScoringServiceError\<close> with the message \<open>Unsupported scoring method:\<close> and the value,
  without any call to the gateway; the route answers it with status 500 and writes no
  row.
\<close>

theorem unsupported_method_error:
  assumes "\<forall>m. \<not> method_eq (method payload) m"
  shows "score svc lib payload hist =
           (Inl (ScoringServiceError
                  (''Unsupported scoring method: '' @ method_str (method payload))), hist)
         \<and> (require_app_id x_app_id = Inr app_id \<longrightarrow>
              POST_score svc lib uid now x_app_id payload w =
                (Inl (HTTPException 500
                       (''Unsupported scoring method: '' @ method_str (method payload))), w)
              \<and> http_status (fst (POST_score svc lib uid now x_app_id payload w)) = 500)"
proof -
  from assms have s: "score svc lib payload hist =
           (Inl (ScoringServiceError
                  (''Unsupported scoring method: '' @ method_str (method payload))), hist)"
    for hist by (simp add: score_def)
  have "POST_score svc lib uid now x_app_id payload w =
          (Inl (HTTPException 500
                 (''Unsupported scoring method: '' @ method_str (method payload))), w)"
    if "require_app_id x_app_id = Inr app_id"
    using that by (simp add: POST_score_def score_translation_def s)
  with s show ?thesis by (simp add: http_status_def)
qed

theorem unsupported_method_error_witness:
  "(\<forall>m. \<not> method_eq (method foreign_request) m)
   \<and> require_app_id (Some ''unit-test-client'') = Inr ''unit-test-client''
   \<and> POST_score stub_service stub_lib 7 1000 (Some ''unit-test-client'') foreign_request
        empty_world
      = (Inl (HTTPException 500 ''Unsupported scoring method: GEMBA-XYZ''), empty_world)"
proof -
  have a: "\<forall>m. \<not> method_eq (method foreign_request) m"
  proof
    fix m show "\<not> method_eq (method foreign_request) m"
      by (cases m) (simp_all add: method_eq_def foreign_request_def)
  qed
  have b: "require_app_id (Some ''unit-test-client'') = Inr ''unit-test-client''"
    by (simp add: require_app_id_def strip_def rstrip_def lstrip_def is_space_def)
  have c: "method_str (method foreign_request) = ''GEMBA-XYZ''"
    by (simp add: foreign_request_def)
  from unsupported_method_error [OF a, of stub_service stub_lib "[]" "Some ''unit-test-client''"
      "''unit-test-client''" 7 1000 empty_world] a b c
  show ?thesis by simp
qed

section \<open>The prompts\<close>

text \<open>
  C9. Each builder that takes the request is a function of the request alone (and, for
  the ESA scoring prompt, of the error text), with no failing branch: \<open>format\<close> finds
  every placeholder of the template among its arguments. The prompt it builds contains
  the source language, the target language, the source text and the target text as they
  are, and the ESA scoring prompt contains the error text as it is.
\<close>

theorem prompts_contain_fields:
  "sublist (source_lang payload) (gemba_da_prompt payload)
   \<and> sublist (target_lang payload) (gemba_da_prompt payload)
   \<and> sublist (source_text payload) (gemba_da_prompt payload)
   \<and> sublist (target_text payload) (gemba_da_prompt payload)
   \<and> sublist (source_lang payload) (gemba_mqm_final_user payload)
   \<and> sublist (target_lang payload) (gemba_mqm_final_user payload)
   \<and> sublist (source_text payload) (gemba_mqm_final_user payload)
   \<and> sublist (target_text payload) (gemba_mqm_final_user payload)
   \<and> sublist (source_lang payload) (gemba_esa_error_prompt payload)
   \<and> sublist (target_lang payload) (gemba_esa_error_prompt payload)
   \<and> sublist (source_text payload) (gemba_esa_error_prompt payload)
   \<and> sublist (target_text payload) (gemba_esa_error_prompt payload)
   \<and> sublist (source_lang payload) (gemba_esa_scoring_prompt payload errors)
   \<and> sublist (target_lang payload) (gemba_esa_scoring_prompt payload errors)
   \<and> sublist (source_text payload) (gemba_esa_scoring_prompt payload errors)
   \<and> sublist (target_text payload) (gemba_esa_scoring_prompt payload errors)
   \<and> sublist errors (gemba_esa_scoring_prompt payload errors)
   \<and> sublist (source_lang payload) (structured_da_user_message payload)
   \<and> sublist (target_lang payload) (structured_da_user_message payload)
   \<and> sublist (source_text payload) (structured_da_user_message payload)
   \<and> sublist (target_text payload) (structured_da_user_message payload)"
proof -
  have da: "sublist (source_lang payload) (gemba_da_prompt payload)"
    "sublist (target_lang payload) (gemba_da_prompt payload)"
    "sublist (source_text payload) (gemba_da_prompt payload)"
    "sublist (target_text payload) (gemba_da_prompt payload)"
    unfolding gemba_da_prompt_def
    by ((rule sublist_skip sublist_append_rightI)+)+
  have mqm: "sublist (source_lang payload) (gemba_mqm_final_user payload)"
    "sublist (target_lang payload) (gemba_mqm_final_user payload)"
    "sublist (source_text payload) (gemba_mqm_final_user payload)"
    "sublist (target_text payload) (gemba_mqm_final_user payload)"
    unfolding gemba_mqm_final_user_def
    by ((rule sublist_skip sublist_append_rightI)+)+
  have esa1: "sublist (source_lang payload) (gemba_esa_error_prompt payload)"
    "sublist (target_lang payload) (gemba_esa_error_prompt payload)"
    "sublist (source_text payload) (gemba_esa_error_prompt payload)"
    "sublist (target_text payload) (gemba_esa_error_prompt payload)"
    unfolding gemba_esa_error_prompt_def
    by ((rule sublist_skip sublist_append_rightI)+)+
  have esa2: "sublist (source_lang payload) (gemba_esa_scoring_prompt payload errors)"
    "sublist (target_lang payload) (gemba_esa_scoring_prompt payload errors)"
    "sublist (source_text payload) (gemba_esa_scoring_prompt payload errors)"
    "sublist (target_text payload) (gemba_esa_scoring_prompt payload errors)"
    "sublist errors (gemba_esa_scoring_prompt payload errors)"
    unfolding gemba_esa_scoring_prompt_def
    by ((rule sublist_skip sublist_append_rightI)+)+
  have sda: "sublist (source_lang payload) (structured_da_user_message payload)"
    "sublist (target_lang payload) (structured_da_user_message payload)"
    "sublist (source_text payload) (structured_da_user_message payload)"
    "sublist (target_text payload) (structured_da_user_message payload)"
    unfolding structured_da_user_message_def
    by ((rule sublist_skip sublist_append_rightI)+)+
  from da mqm esa1 esa2 sda show ?thesis by (intro conjI)
qed

section \<open>Listing the scores\<close>

text \<open>
  C7. \<open>limit\<close> defaults to 25; a limit outside 1..200, a threshold outside 0..100 or
  an empty \<open>app_id\<close> is refused. Otherwise, on a table of valid rows, the listing is the first \<open>limit\<close> rows
  of the selected rows of the table put newest first, each turned into a record: so at
  most \<open>limit\<close> records, newest first, each with a score at most the threshold when one
  is given and with exactly the given \<open>app_id\<close> when one is given.
\<close>

theorem list_scores_newest_first:
  assumes "list_all valid_row tbl"
  shows "GET_scores None threshold app_id tbl = GET_scores (Some 25) threshold app_id tbl
    \<and> (limit < 1 \<or> 200 < limit \<longrightarrow>
         GET_scores (Some limit) threshold app_id tbl = Inl RequestValidationError)
    \<and> (1 \<le> limit \<and> limit \<le> 200 \<and> (\<exists>t. threshold = Some t \<and> (t < 0 \<or> 100 < t)) \<longrightarrow>
         GET_scores (Some limit) threshold app_id tbl = Inl RequestValidationError)
    \<and> (app_id = Some [] \<longrightarrow>
         GET_scores (Some limit) threshold app_id tbl = Inl RequestValidationError)
    \<and> (1 \<le> limit \<and> limit \<le> 200 \<and> (\<forall>t. threshold = Some t \<longrightarrow> 0 \<le> t \<and> t \<le> 100)
         \<and> app_id \<noteq> Some [] \<longrightarrow>
         (\<exists>all_rows recs.
            GET_scores (Some limit) threshold app_id tbl = Inr recs
            \<and> mset all_rows = mset (filter (selected threshold app_id) tbl)
            \<and> sorted_wrt (\<lambda>r1 r2. row_created_at r2 \<le> row_created_at r1) all_rows
            \<and> list_all2 (\<lambda>row rec. to_record row = Inr rec) (take (nat limit) all_rows) recs
            \<and> length recs \<le> nat limit
            \<and> sorted_wrt (\<lambda>r1 r2. rec_created_at r2 \<le> rec_created_at r1) recs
            \<and> (\<forall>t. threshold = Some t \<longrightarrow> (\<forall>rec\<in>set recs. rec_score rec \<le> t))
            \<and> (\<forall>a. app_id = Some a \<longrightarrow> (\<forall>rec\<in>set recs. rec_app_id rec = a))))"
proof (intro conjI impI)
  show "GET_scores None threshold app_id tbl = GET_scores (Some 25) threshold app_id tbl"
    by (simp add: GET_scores_def)
next
  assume "limit < 1 \<or> 200 < limit"
  then show "GET_scores (Some limit) threshold app_id tbl = Inl RequestValidationError"
    by (auto simp: GET_scores_def)
next
  assume "1 \<le> limit \<and> limit \<le> 200 \<and> (\<exists>t. threshold = Some t \<and> (t < 0 \<or> 100 < t))"
  then show "GET_scores (Some limit) threshold app_id tbl = Inl RequestValidationError"
    by (auto simp: GET_scores_def)
next
  assume "app_id = Some []"
  then show "GET_scores (Some limit) threshold app_id tbl = Inl RequestValidationError"
    by (auto simp: GET_scores_def split: option.splits)
next
  assume a: "1 \<le> limit \<and> limit \<le> 200 \<and> (\<forall>t. threshold = Some t \<longrightarrow> 0 \<le> t \<and> t \<le> 100)
         \<and> app_id \<noteq> Some []"
  then have app: "app_id \<noteq> Some []" by simp
  define all_rows where
    "all_rows = sort_key (\<lambda>row. - row_created_at row) (filter (selected threshold app_id) tbl)"
  define rows where "rows = take (nat limit) all_rows"
  have get: "GET_scores (Some limit) threshold app_id tbl = comprehension to_record rows"
    using a by (auto simp: GET_scores_def list_scores_eq [OF app] rows_def all_rows_def
        split: option.splits)
  have ms: "mset all_rows = mset (filter (selected threshold app_id) tbl)"
    by (simp add: all_rows_def)
  have "sorted (map (\<lambda>row. - row_created_at row) all_rows)"
    unfolding all_rows_def by (rule sorted_sort_key)
  then have so: "sorted_wrt (\<lambda>r1 r2. row_created_at r2 \<le> row_created_at r1) all_rows"
    by (simp add: sorted_map)
  have sub: "set rows \<subseteq> set (filter (selected threshold app_id) tbl)"
    unfolding rows_def all_rows_def by (auto dest: in_set_takeD)
  have "\<forall>row\<in>set rows. \<exists>rec. to_record row = Inr rec"
    using sub assms by (auto simp: list_all_iff intro: valid_row_to_record)
  then obtain recs where recs: "comprehension to_record rows = Inr recs"
    using comprehension_total by blast
  then have rel: "list_all2 (\<lambda>row rec. to_record row = Inr rec) rows recs"
    by (rule comprehension_Inr)
  have len: "length recs \<le> nat limit"
    using list_all2_lengthD [OF rel] by (simp add: rows_def)
  have sr: "sorted_wrt (\<lambda>r1 r2. row_created_at r2 \<le> row_created_at r1) rows"
    unfolding rows_def using so by (rule sorted_wrt_take)
  have srec: "sorted_wrt (\<lambda>r1 r2. rec_created_at r2 \<le> rec_created_at r1) recs"
    using rel sr by (rule list_all2_sorted_wrt) (auto dest!: to_record_fields)
  have from_row: "\<exists>row\<in>set rows. to_record row = Inr rec" if "rec \<in> set recs" for rec
    using rel that by (rule list_all2_forall)
  have th: "\<forall>t. threshold = Some t \<longrightarrow> (\<forall>rec\<in>set recs. rec_score rec \<le> t)"
  proof (intro allI impI ballI)
    fix t rec assume t: "threshold = Some t" and "rec \<in> set recs"
    then obtain row where "row \<in> set rows" and r: "to_record row = Inr rec"
      using from_row by blast
    with sub have "selected threshold app_id row" by auto
    with t have "row_score row \<le> t" by (simp add: selected_def)
    with to_record_fields [OF r] show "rec_score rec \<le> t" by simp
  qed
  have ap: "\<forall>a. app_id = Some a \<longrightarrow> (\<forall>rec\<in>set recs. rec_app_id rec = a)"
  proof (intro allI impI ballI)
    fix a rec assume a: "app_id = Some a" and "rec \<in> set recs"
    then obtain row where "row \<in> set rows" and r: "to_record row = Inr rec"
      using from_row by blast
    with sub have "selected threshold app_id row" by auto
    with a have "row_app_id row = a" by (simp add: selected_def)
    with to_record_fields [OF r] show "rec_app_id rec = a" by simp
  qed
  from get recs ms so rel len srec th ap
  show "\<exists>all_rows recs.
            GET_scores (Some limit) threshold app_id tbl = Inr recs
            \<and> mset all_rows = mset (filter (selected threshold app_id) tbl)
            \<and> sorted_wrt (\<lambda>r1 r2. row_created_at r2 \<le> row_created_at r1) all_rows
            \<and> list_all2 (\<lambda>row rec. to_record row = Inr rec) (take (nat limit) all_rows) recs
            \<and> length recs \<le> nat limit
            \<and> sorted_wrt (\<lambda>r1 r2. rec_created_at r2 \<le> rec_created_at r1) recs
            \<and> (\<forall>t. threshold = Some t \<longrightarrow> (\<forall>rec\<in>set recs. rec_score rec \<le> t))
            \<and> (\<forall>a. app_id = Some a \<longrightarrow> (\<forall>rec\<in>set recs. rec_app_id rec = a))"
    unfolding rows_def by (intro exI [of _ all_rows] exI [of _ recs]) simp
qed

theorem list_scores_newest_first_witness:
  "list_all valid_row example_table
   \<and> map rec_id (projr (GET_scores (Some 2) (Some 60) None example_table)) = [3, 2]
   \<and> map rec_score (projr (GET_scores (Some 2) (Some 60) None example_table)) = [30, 40]
   \<and> GET_scores (Some 201) (Some 60) None example_table = Inl RequestValidationError"
  using list_scores_newest_first [OF example_table_valid, of "Some 60" None 201]
  by (simp add: example_table_valid example_table_listing)

text \<open>
  C1, as the claim has it: each returned record includes the source text and the raw LLM
  response of its row. It does not: two tables that differ only there give the same
  listing.
\<close>

theorem list_scores_omits_source_text:
  "GET_scores None None None [example_row]
     = GET_scores None None None
         [example_row\<lparr>row_source_text := ''Bye'', row_raw_llm_response := Some ''42''\<rparr>]
   \<and> row_source_text example_row \<noteq> ''Bye''
   \<and> row_raw_llm_response example_row \<noteq> Some ''42''"
  by (simp add: GET_scores_def list_scores_def execute_select_def example_row_def
      to_record_def ScoringMethod_of_def Let_def)

text \<open>
  C1, amended. Each returned record carries the id, app_id, source language, target
  language, scoring method, model identifier, score, adequacy, fluency, rationale,
  creation timestamp and target text of a row of the table; the listing does not depend
  on the source text or the raw LLM response of any row.
\<close>

theorem list_scores_record_fields:
  "(GET_scores limit threshold app_id tbl = Inr recs \<longrightarrow>
      (\<forall>rec\<in>set recs. \<exists>row\<in>set tbl.
         rec_id rec = row_id row \<and> rec_app_id rec = row_app_id row
         \<and> rec_source_lang rec = row_source_lang row
         \<and> rec_target_lang rec = row_target_lang row
         \<and> ScoringMethod_value (rec_scoring_method rec) = row_scoring_method row
         \<and> rec_llm_model rec = row_llm_model row \<and> rec_score rec = row_score row
         \<and> rec_adequacy_score rec = row_adequacy_score row
         \<and> rec_fluency_score rec = row_fluency_score row
         \<and> rec_rationale rec = row_rationale row
         \<and> rec_created_at rec = row_created_at row
         \<and> rec_target_text rec = row_target_text row))
   \<and> GET_scores limit threshold app_id
        (map (\<lambda>row. row\<lparr>row_source_text := f row, row_raw_llm_response := g row\<rparr>) tbl)
      = GET_scores limit threshold app_id tbl"
proof (intro conjI impI ballI)
  fix rec
  assume g: "GET_scores limit threshold app_id tbl = Inr recs" and r: "rec \<in> set recs"
  define l where "l = (case limit of None \<Rightarrow> 25 | Some l \<Rightarrow> l)"
  from g have "list_scores l threshold app_id tbl = Inr recs"
    by (auto simp: GET_scores_def l_def Let_def split: if_splits)
  then obtain conds where "comprehension to_record (execute_select conds l tbl) = Inr recs"
    unfolding list_scores_def Let_def by blast
  then have "list_all2 (\<lambda>row rec. to_record row = Inr rec) (execute_select conds l tbl) recs"
    by (rule comprehension_Inr)
  with r obtain row where "row \<in> set (execute_select conds l tbl)" and t: "to_record row = Inr rec"
    using list_all2_forall by force
  with execute_select_subset have "row \<in> set tbl" by blast
  with to_record_fields [OF t]
  show "\<exists>row\<in>set tbl.
         rec_id rec = row_id row \<and> rec_app_id rec = row_app_id row
         \<and> rec_source_lang rec = row_source_lang row
         \<and> rec_target_lang rec = row_target_lang row
         \<and> ScoringMethod_value (rec_scoring_method rec) = row_scoring_method row
         \<and> rec_llm_model rec = row_llm_model row \<and> rec_score rec = row_score row
         \<and> rec_adequacy_score rec = row_adequacy_score row
         \<and> rec_fluency_score rec = row_fluency_score row
         \<and> rec_rationale rec = row_rationale row
         \<and> rec_created_at rec = row_created_at row
         \<and> rec_target_text rec = row_target_text row" by blast
next
  show "GET_scores limit threshold app_id
        (map (\<lambda>row. row\<lparr>row_source_text := f row, row_raw_llm_response := g row\<rparr>) tbl)
      = GET_scores limit threshold app_id tbl"
    by (simp only: GET_scores_def list_scores_ignores)
qed

theorem list_scores_record_fields_witness:
  "GET_scores (Some 2) (Some 60) None example_table \<noteq> Inl RequestValidationError
   \<and> map rec_id (projr (GET_scores (Some 2) (Some 60) None example_table)) = [3, 2]
   \<and> (\<exists>row\<in>set example_table. row_id row = 3 \<and> row_score row = 30)
   \<and> (\<exists>row\<in>set example_table. row_id row = 2 \<and> row_score row = 40)"
  using list_scores_record_fields [of "Some 2" "Some 60" None example_table
      "projr (GET_scores (Some 2) (Some 60) None example_table)" row_raw_llm_response
      row_source_text]
  by (simp add: example_table_listing) blast

end
